theory Spec2Isabelle
  imports Main "HOL-Library.Sublist" "HOL-Library.AList"
begin

section \<open>The page driver, as the scrapers use it\<close>

text \<open>
  The three scrapers (\<^verbatim>\<open>myntra2_fast.py\<close>, \<^verbatim>\<open>myntra_new.py\<close>, \<^verbatim>\<open>nyakaa_new.py\<close>) drive a
  browser through Selenium. The browser is the environment: a DOM node offers its text, its
  attributes and a lookup of the nodes below it, and a lookup either returns the matching
  nodes in DOM order or raises. A handle that went stale is a lookup that raises
  \<open>WebDriverException\<close>.
\<close>

datatype exn =
    NoSuchElementException
  | TimeoutException
  | WebDriverException
  | TypeError
  | OSError
  | KeyboardInterrupt

text \<open>\<^verbatim>\<open>except Exception\<close> catches every exception but the interrupt; a bare \<^verbatim>\<open>except:\<close>
  catches all of them.\<close>

definition is_Exception :: "exn \<Rightarrow> bool" where
  "is_Exception e = (e \<noteq> KeyboardInterrupt)"

datatype By = CLASS_NAME | CSS_SELECTOR | XPATH | TAG_NAME

datatype node =
  Node (node_text: string) (attributes: "(string \<times> string) list")
       (below: "By \<Rightarrow> string \<Rightarrow> exn + node list")

type_synonym search_context = "By \<Rightarrow> string \<Rightarrow> exn + node list"

definition get_attribute :: "node \<Rightarrow> string \<Rightarrow> string option" where
  "get_attribute n a = map_of (attributes n) a"

definition find_elements :: "search_context \<Rightarrow> By \<Rightarrow> string \<Rightarrow> exn + node list" where
  "find_elements ctx b sel = ctx b sel"

definition find_element :: "search_context \<Rightarrow> By \<Rightarrow> string \<Rightarrow> exn + node" where
  "find_element ctx b sel =
     (case ctx b sel of
        Inl e \<Rightarrow> Inl e
      | Inr [] \<Rightarrow> Inl NoSuchElementException
      | Inr (n # _) \<Rightarrow> Inr n)"

text \<open>\<^verbatim>\<open>WebDriverWait(...).until(EC.presence_of_all_elements_located(...))\<close>: the wait ignores
  \<open>NoSuchElementException\<close>, returns the first non-empty match and raises
  \<open>TimeoutException\<close> when nothing matched in time.\<close>

definition wait_presence_of_all :: "search_context \<Rightarrow> By \<Rightarrow> string \<Rightarrow> exn + node list" where
  "wait_presence_of_all ctx b sel =
     (case ctx b sel of
        Inl e \<Rightarrow> (if e = NoSuchElementException then Inl TimeoutException else Inl e)
      | Inr [] \<Rightarrow> Inl TimeoutException
      | Inr (n # ns) \<Rightarrow> Inr (n # ns))"

text \<open>\<^verbatim>\<open>driver.get(url)\<close>: the page the browser shows afterwards, or the exception raised.\<close>

type_synonym browser = "string \<Rightarrow> exn + search_context"

subsection \<open>Strings\<close>

text \<open>
  A character is a code point below 256, so a string is Latin-1 text. Python's
  \<^verbatim>\<open>str.strip()\<close> removes the characters for which \<^verbatim>\<open>isspace\<close> holds; below 256 these are
  the ASCII white space, the separators \<open>0x1C\<close> to \<open>0x1F\<close>, the next-line character
  \<open>0x85\<close> and the no-break space \<open>0xA0\<close>.
\<close>

definition isspace :: "char \<Rightarrow> bool" where
  "isspace c = (c \<in> set [CHR 0x09, CHR 0x0A, CHR 0x0B, CHR 0x0C, CHR 0x0D,
                            CHR 0x1C, CHR 0x1D, CHR 0x1E, CHR 0x1F, CHR 0x20,
                            CHR 0x85, CHR 0xA0])"

definition strip_chars :: "(char \<Rightarrow> bool) \<Rightarrow> string \<Rightarrow> string" where
  "strip_chars P s = rev (dropWhile P (rev (dropWhile P s)))"

definition strip :: "string \<Rightarrow> string" where
  "strip s = strip_chars isspace s"

text \<open>\<^verbatim>\<open>sub in s\<close>.\<close>

fun contains :: "string \<Rightarrow> string \<Rightarrow> bool" where
  "contains sub [] = (sub = [])"
| "contains sub (c # cs) = (prefix sub (c # cs) \<or> contains sub cs)"

text \<open>\<^verbatim>\<open>s.find(sub, start)\<close> for \<open>0 \<le> start\<close>: the lowest index at or after \<open>start\<close> where
  \<open>sub\<close> begins, or \<open>-1\<close>.\<close>

fun find_at :: "string \<Rightarrow> string \<Rightarrow> nat \<Rightarrow> int" where
  "find_at sub [] i = (if sub = [] then int i else - 1)"
| "find_at sub (c # cs) i = (if prefix sub (c # cs) then int i else find_at sub cs (Suc i))"

definition find_from :: "string \<Rightarrow> string \<Rightarrow> nat \<Rightarrow> int" where
  "find_from s sub start =
     (if start \<le> length s then find_at sub (drop start s) start else - 1)"

text \<open>\<^verbatim>\<open>s[a:b]\<close> for \<open>0 \<le> a\<close> and \<open>0 \<le> b\<close>.\<close>

definition slice :: "string \<Rightarrow> nat \<Rightarrow> nat \<Rightarrow> string" where
  "slice s a b = take (b - a) (drop a s)"

text \<open>\<^verbatim>\<open>s.lower()\<close>: below 256 the upper-case letters are \<open>A\<close> to \<open>Z\<close> and \<open>0xC0\<close> to
  \<open>0xDE\<close> without the multiplication sign \<open>0xD7\<close>, each 32 below its lower-case
  letter.\<close>

definition lower_char :: "char \<Rightarrow> char" where
  "lower_char c =
     (let n = (of_char c :: nat)
      in if (65 \<le> n \<and> n \<le> 90) \<or> (192 \<le> n \<and> n \<le> 222 \<and> n \<noteq> 215)
         then char_of (n + 32) else c)"

definition lower :: "string \<Rightarrow> string" where
  "lower s = map lower_char s"

text \<open>\<^verbatim>\<open>s.startswith(p)\<close> and \<^verbatim>\<open>s.split("?")[0]\<close>.\<close>

definition startswith :: "string \<Rightarrow> string \<Rightarrow> bool" where
  "startswith s p = prefix p s"

definition before_query :: "string \<Rightarrow> string" where
  "before_query s = takeWhile (\<lambda>c. c \<noteq> CHR ''?'') s"

text \<open>\<^verbatim>\<open>sep.join(xs)\<close>.\<close>

fun join :: "string \<Rightarrow> string list \<Rightarrow> string" where
  "join sep [] = []"
| "join sep [x] = x"
| "join sep (x # y # ys) = x @ sep @ join sep (y # ys)"

section \<open>The deep scrapers: \<^verbatim>\<open>myntra_new.py\<close> and \<^verbatim>\<open>nyakaa_new.py\<close>\<close>

subsection \<open>Single fields\<close>

text \<open>\<^verbatim>\<open>_safe_extract\<close> (Myntra) and \<^verbatim>\<open>_safe_extract_xpath\<close> (Nykaa): the bare \<^verbatim>\<open>except:\<close>
  turns every failure of the lookup into the sentinel.\<close>

definition safe_extract :: "search_context \<Rightarrow> By \<Rightarrow> string \<Rightarrow> string" where
  "safe_extract page b sel =
     (case find_element page b sel of
        Inr element \<Rightarrow> strip (node_text element)
      | Inl _ \<Rightarrow> ''N/A'')"

definition safe_extract_xpath :: "search_context \<Rightarrow> string \<Rightarrow> string" where
  "safe_extract_xpath page xpath =
     (case find_element page XPATH xpath of
        Inr element \<Rightarrow> strip (node_text element)
      | Inl _ \<Rightarrow> ''N/A'')"

text \<open>\<^verbatim>\<open>_extract_reviews\<close>, with the locator each site uses.\<close>

definition extract_reviews_at :: "By \<Rightarrow> string \<Rightarrow> search_context \<Rightarrow> string list" where
  "extract_reviews_at b sel page =
     (case find_elements page b sel of
        Inr review_elements \<Rightarrow>
          map (\<lambda>review. strip (node_text review))
              (filter (\<lambda>review. strip (node_text review) \<noteq> []) review_elements)
      | Inl _ \<Rightarrow> [])"

definition extract_reviews_myntra :: "search_context \<Rightarrow> string list" where
  "extract_reviews_myntra =
     extract_reviews_at XPATH ''//div[@class='user-review-reviewTextWrapper']''"

definition extract_reviews_nykaa :: "search_context \<Rightarrow> string list" where
  "extract_reviews_nykaa = extract_reviews_at XPATH ''//p[@class='css-183zl1c']''"

text \<open>\<^verbatim>\<open>_extract_breadcrumb\<close> (Myntra only).\<close>

definition extract_breadcrumb :: "search_context \<Rightarrow> string" where
  "extract_breadcrumb page =
     (case find_elements page CSS_SELECTOR ''.breadcrumbs-crumb'' of
        Inr breadcrumb_elements \<Rightarrow>
          join '' > '' (map (\<lambda>elem. strip (node_text elem))
                            (filter (\<lambda>elem. strip (node_text elem) \<noteq> []) breadcrumb_elements))
      | Inl _ \<Rightarrow> ''N/A'')"

subsection \<open>Sizes\<close>

text \<open>
  \<^verbatim>\<open>_extract_size_options\<close>: the loop over the size buttons. A button whose stripped text is
  empty is passed over. \<^verbatim>\<open>"disabled" in button.get_attribute("class")\<close> raises
  \<open>TypeError\<close> when the attribute is missing, and the bare \<^verbatim>\<open>except:\<close> around the whole
  body then returns the empty list.
\<close>

definition is_disabled :: "node \<Rightarrow> exn + bool" where
  "is_disabled button =
     (case get_attribute button ''class'' of
        None \<Rightarrow> Inl TypeError
      | Some cls \<Rightarrow>
          Inr (contains ''disabled'' cls
               \<or> get_attribute button ''aria-disabled'' = Some ''true''))"

definition size_entry :: "string \<Rightarrow> bool \<Rightarrow> string" where
  "size_entry size_text disabled =
     size_text @ '' ('' @ (if disabled then ''Out of Stock'' else ''In Stock'') @ '')''"

fun size_loop :: "node list \<Rightarrow> string list \<Rightarrow> exn + string list" where
  "size_loop [] size_info = Inr size_info"
| "size_loop (button # rest) size_info =
     (let size_text = strip (node_text button) in
      if size_text \<noteq> [] then
        (case is_disabled button of
           Inl e \<Rightarrow> Inl e
         | Inr disabled \<Rightarrow> size_loop rest (size_info @ [size_entry size_text disabled]))
      else size_loop rest size_info)"

definition extract_size_options_at :: "By \<Rightarrow> string \<Rightarrow> search_context \<Rightarrow> string list" where
  "extract_size_options_at b sel page =
     (case find_elements page b sel of
        Inl _ \<Rightarrow> []
      | Inr size_buttons \<Rightarrow>
          (case size_loop size_buttons [] of Inl _ \<Rightarrow> [] | Inr size_info \<Rightarrow> size_info))"

definition extract_size_options_myntra :: "search_context \<Rightarrow> string list" where
  "extract_size_options_myntra = extract_size_options_at CLASS_NAME ''size-buttons-size-button''"

definition extract_size_options_nykaa :: "search_context \<Rightarrow> string list" where
  "extract_size_options_nykaa = extract_size_options_at XPATH ''//span[@class='css-la6tof']''"

subsection \<open>The image strategy chain\<close>

text \<open>A strategy is a thunk over the current page: it returns a string, returns \<^verbatim>\<open>None\<close>,
  or raises.\<close>

type_synonym strategy = "search_context \<Rightarrow> exn + string option"

definition url_marker :: string where
  "url_marker = ''background-image: url('' @ [CHR 0x22]"

definition url_close :: string where
  "url_close = [CHR 0x22] @ '')''"

definition extract_background_image :: "string \<Rightarrow> strategy" where
  "extract_background_image selector page =
     (case find_element page CSS_SELECTOR selector of
        Inl e \<Rightarrow> Inl e
      | Inr element \<Rightarrow>
          (case get_attribute element ''style'' of
             None \<Rightarrow> Inr None
           | Some style_attr \<Rightarrow>
               if style_attr \<noteq> [] \<and> contains ''background-image: url('' style_attr then
                 (let start_pos = find_from style_attr url_marker 0 + int (length url_marker);
                      end_pos = find_from style_attr url_close (nat start_pos)
                  in if start_pos > 0 \<and> end_pos > start_pos
                     then Inr (Some (slice style_attr (nat start_pos) (nat end_pos)))
                     else Inr None)
               else Inr None))"

definition extract_img_src_myntra :: "string \<Rightarrow> strategy" where
  "extract_img_src_myntra selector page =
     (case find_element page CSS_SELECTOR selector of
        Inl e \<Rightarrow> Inl e
      | Inr img_element \<Rightarrow> Inr (get_attribute img_element ''src''))"

definition extract_img_src_nykaa :: "string \<Rightarrow> strategy" where
  "extract_img_src_nykaa selector page =
     (case (if startswith selector ''//''
            then find_element page XPATH selector
            else find_element page CSS_SELECTOR selector) of
        Inl e \<Rightarrow> Inl e
      | Inr img_element \<Rightarrow> Inr (get_attribute img_element ''src''))"

fun first_keyword_src :: "string list \<Rightarrow> node list \<Rightarrow> string option" where
  "first_keyword_src keywords [] = None"
| "first_keyword_src keywords (img # rest) =
     (case get_attribute img ''src'' of
        None \<Rightarrow> first_keyword_src keywords rest
      | Some src \<Rightarrow>
          if src \<noteq> [] \<and> (\<exists>keyword \<in> set keywords. contains keyword (lower src))
          then Some src
          else first_keyword_src keywords rest)"

definition find_product_image_fallback :: "string list \<Rightarrow> strategy" where
  "find_product_image_fallback keywords page =
     (case find_elements page TAG_NAME ''img'' of
        Inl e \<Rightarrow> Inl e
      | Inr all_images \<Rightarrow> Inr (first_keyword_src keywords all_images))"

definition image_strategies_myntra :: "strategy list" where
  "image_strategies_myntra =
     [extract_background_image ''.image-grid-image'',
      extract_background_image ''.image-grid-imageContainer'',
      extract_img_src_myntra ''img.img-responsive'',
      extract_img_src_myntra ''.pdp-main-container img'',
      find_product_image_fallback [''myntra'', ''assets'']]"

definition image_strategies_nykaa :: "strategy list" where
  "image_strategies_nykaa =
     [extract_img_src_nykaa ''//img[@class=' css-kwk7lt']'',
      extract_img_src_nykaa ''//img[@class='css-kwk7lt']'',
      extract_img_src_nykaa ''.product-image img'',
      find_product_image_fallback [''nykaa'', ''assets'', ''product'']]"

text \<open>
  The loop of \<^verbatim>\<open>extract_product_image\<close> over a strategy list. Beside the value returned,
  the model counts the strategies it has called; they are called from the front of the list,
  so a count of \<open>k\<close> says that exactly the first \<open>k\<close> strategies ran.
\<close>

definition accepted :: "exn + string option \<Rightarrow> bool" where
  "accepted r =
     (case r of Inr (Some result) \<Rightarrow> result \<noteq> [] \<and> startswith result ''http'' | _ \<Rightarrow> False)"

fun try_strategies :: "strategy list \<Rightarrow> search_context \<Rightarrow> string \<times> nat" where
  "try_strategies [] page = (''Image not available'', 0)"
| "try_strategies (strategy # rest) page =
     (case strategy page of
        Inr (Some result) \<Rightarrow>
          if result \<noteq> [] \<and> startswith result ''http''
          then (before_query result, 1)
          else apsnd Suc (try_strategies rest page)
      | Inr None \<Rightarrow> apsnd Suc (try_strategies rest page)
      | Inl _ \<Rightarrow> apsnd Suc (try_strategies rest page))"

definition extract_product_image_myntra :: "search_context \<Rightarrow> string" where
  "extract_product_image_myntra page = fst (try_strategies image_strategies_myntra page)"

definition extract_product_image_nykaa :: "search_context \<Rightarrow> string" where
  "extract_product_image_nykaa page = fst (try_strategies image_strategies_nykaa page)"

subsection \<open>Product records\<close>

text \<open>The dictionary built by \<^verbatim>\<open>extract_product_details\<close>: ten keys on Nykaa, and the
  breadcrumb as an eleventh on Myntra.\<close>

record product_info =
  search_keyword :: string
  product_url :: string
  brand :: string
  name :: string
  discounted_price :: string
  original_price :: string
  rating :: string
  image_url :: string
  reviews :: "string list"
  available_sizes :: "string list"

record myntra_info = product_info +
  breadcrumb :: string

subsection \<open>Scraper state\<close>

text \<open>
  What a run changes: the files on disk (a CSV file is its rows, a JSON file the value
  dumped into it), the requests the driver was sent (\<^verbatim>\<open>driver.get\<close>, in order), the calls
  of \<^verbatim>\<open>driver.quit\<close>, and the records held in memory. Console output and the pacing
  sleeps are not part of the state.
\<close>

record 'j machine =
  csv_files :: "string \<rightharpoonup> string list list"
  json_files :: "string \<rightharpoonup> 'j"
  history :: "string option list"
  quit_calls :: nat

record ('j, 'r) scraper = "'j machine" +
  scraped_data :: "'r list"

text \<open>The site: what \<^verbatim>\<open>driver.get\<close> shows for a URL, and the URL the browser is at after a
  search term was typed into the search box and submitted.\<close>

record site =
  get_page :: "string \<Rightarrow> exn + search_context"
  submit_search :: "string \<Rightarrow> exn + string"

text \<open>\<^verbatim>\<open>driver.get(url)\<close>; a URL of \<^verbatim>\<open>None\<close> is refused by the driver.\<close>

definition driver_get ::
  "site \<Rightarrow> string option \<Rightarrow> ('j, 'z) machine_scheme
     \<Rightarrow> (exn + search_context) \<times> ('j, 'z) machine_scheme" where
  "driver_get w url st =
     ((case url of None \<Rightarrow> Inl WebDriverException | Some u \<Rightarrow> get_page w u),
      st\<lparr>history := history st @ [url]\<rparr>)"

subsection \<open>\<^verbatim>\<open>extract_product_details\<close>\<close>

text \<open>
  After \<^verbatim>\<open>driver.get\<close> every helper swallows its own failures, so the navigation is the
  one step of the \<^verbatim>\<open>try\<close> body that can raise; \<^verbatim>\<open>except Exception\<close> turns that into
  \<^verbatim>\<open>None\<close> and lets an interrupt through.
\<close>

definition product_info_myntra :: "search_context \<Rightarrow> string \<Rightarrow> string \<Rightarrow> myntra_info" where
  "product_info_myntra page url keyword =
     \<lparr> search_keyword = keyword,
       product_url = url,
       brand = safe_extract page CLASS_NAME ''pdp-title'',
       name = safe_extract page CLASS_NAME ''pdp-name'',
       discounted_price = safe_extract page CLASS_NAME ''pdp-price'',
       original_price = safe_extract page CLASS_NAME ''pdp-mrp'',
       rating = safe_extract page CLASS_NAME ''index-overallRating'',
       image_url = extract_product_image_myntra page,
       reviews = extract_reviews_myntra page,
       available_sizes = extract_size_options_myntra page,
       breadcrumb = extract_breadcrumb page \<rparr>"

definition extract_product_details_myntra ::
  "site \<Rightarrow> string option \<Rightarrow> string \<Rightarrow> ('j, 'z) machine_scheme
     \<Rightarrow> (exn + myntra_info option) \<times> ('j, 'z) machine_scheme" where
  "extract_product_details_myntra w url keyword st =
     (case driver_get w url st of
        (Inl e, st') \<Rightarrow> (if is_Exception e then Inr None else Inl e, st')
      | (Inr page, st') \<Rightarrow>
          (let info = product_info_myntra page (case url of None \<Rightarrow> [] | Some u \<Rightarrow> u) keyword;
               info' = (if original_price info = []
                        then info\<lparr>original_price := discounted_price info\<rparr>
                        else info)
           in (Inr (Some info'), st')))"

definition product_info_nykaa :: "search_context \<Rightarrow> string \<Rightarrow> string \<Rightarrow> product_info" where
  "product_info_nykaa page url keyword =
     \<lparr> search_keyword = keyword,
       product_url = url,
       brand = safe_extract_xpath page ''//a[@class='css-6mpq2k']'',
       name = safe_extract_xpath page ''//span[@class='css-cmh3n9']'',
       discounted_price = safe_extract_xpath page ''//span[@class='css-5pw8k6']'',
       original_price = safe_extract_xpath page ''//span[@class=' css-1byl9fj']'',
       rating = safe_extract_xpath page ''//div[@class='css-xoezkq']'',
       image_url = extract_product_image_nykaa page,
       reviews = extract_reviews_nykaa page,
       available_sizes = extract_size_options_nykaa page \<rparr>"

definition extract_product_details_nykaa ::
  "site \<Rightarrow> string option \<Rightarrow> string \<Rightarrow> ('j, 'z) machine_scheme
     \<Rightarrow> (exn + product_info option) \<times> ('j, 'z) machine_scheme" where
  "extract_product_details_nykaa w url keyword st =
     (case driver_get w url st of
        (Inl e, st') \<Rightarrow> (if is_Exception e then Inr None else Inl e, st')
      | (Inr page, st') \<Rightarrow>
          (let info = product_info_nykaa page (case url of None \<Rightarrow> [] | Some u \<Rightarrow> u) keyword;
               info' = (if original_price info = [] \<or> original_price info = ''N/A''
                        then info\<lparr>original_price := discounted_price info\<rparr>
                        else info)
           in (Inr (Some info'), st')))"

subsection \<open>\<^verbatim>\<open>save_data\<close>\<close>

definition fieldnames_myntra :: "string list" where
  "fieldnames_myntra =
     [''search_keyword'', ''brand'', ''name'', ''product_url'', ''image_url'',
      ''original_price'', ''discounted_price'', ''rating'', ''reviews'',
      ''available_sizes'', ''breadcrumb'']"

definition fieldnames_nykaa :: "string list" where
  "fieldnames_nykaa =
     [''search_keyword'', ''brand'', ''name'', ''product_url'', ''image_url'',
      ''original_price'', ''discounted_price'', ''rating'', ''reviews'',
      ''available_sizes'']"

definition csv_row_common :: "'z product_info_scheme \<Rightarrow> string list" where
  "csv_row_common product =
     [search_keyword product, brand product, name product, product_url product,
      image_url product, original_price product, discounted_price product, rating product,
      (if reviews product \<noteq> [] then join '' | '' (reviews product) else ''No reviews''),
      (if available_sizes product \<noteq> [] then join ''; '' (available_sizes product)
       else ''No sizes'')]"

definition csv_row_nykaa :: "product_info \<Rightarrow> string list" where
  "csv_row_nykaa product = csv_row_common product"

definition csv_row_myntra :: "myntra_info \<Rightarrow> string list" where
  "csv_row_myntra product = csv_row_common product @ [breadcrumb product]"

definition save_data_myntra ::
  "string \<Rightarrow> (myntra_info list, myntra_info) scraper \<Rightarrow> (myntra_info list, myntra_info) scraper"
  where
  "save_data_myntra filename st =
     (if scraped_data st = [] then st
      else st\<lparr> csv_files := (csv_files st)
                   (filename @ ''.csv'' \<mapsto> fieldnames_myntra # map csv_row_myntra (scraped_data st)),
               json_files := (json_files st)(filename @ ''.json'' \<mapsto> scraped_data st) \<rparr>)"

definition save_data_nykaa ::
  "string \<Rightarrow> (product_info list, product_info) scraper
     \<Rightarrow> (product_info list, product_info) scraper" where
  "save_data_nykaa filename st =
     (if scraped_data st = [] then st
      else st\<lparr> csv_files := (csv_files st)
                   (filename @ ''.csv'' \<mapsto> fieldnames_nykaa # map csv_row_nykaa (scraped_data st)),
               json_files := (json_files st)(filename @ ''.json'' \<mapsto> scraped_data st) \<rparr>)"

subsection \<open>The deep session of \<^verbatim>\<open>myntra_new.py\<close>\<close>

definition swallow_Exception :: "exn \<Rightarrow> exn + 'a option" where
  "swallow_Exception e = (if is_Exception e then Inr None else Inl e)"




definition only_timeout :: "exn \<Rightarrow> exn + 'a list" where
  "only_timeout e = (if e = TimeoutException then Inr [] else Inl e)"


fun product_loop_myntra ::
  "site \<Rightarrow> string \<Rightarrow> string option list \<Rightarrow> ('j, myntra_info) scraper
     \<Rightarrow> exn option \<times> ('j, myntra_info) scraper" where
  "product_loop_myntra w term [] st = (None, st)"
| "product_loop_myntra w term (url # rest) st =
     (case extract_product_details_myntra w url term st of
        (Inl e, st') \<Rightarrow> (Some e, st')
      | (Inr None, st') \<Rightarrow> product_loop_myntra w term rest st'
      | (Inr (Some product_details), st') \<Rightarrow>
          product_loop_myntra w term rest
            (st'\<lparr>scraped_data := scraped_data st' @ [product_details]\<rparr>))"



text \<open>
  \<^verbatim>\<open>main\<close>, from the constructed scraper on; the search terms, which \<^verbatim>\<open>main\<close> fixes, are a
  parameter. The result is the exception that leaves \<^verbatim>\<open>main\<close>, if any, and the final
  state.
\<close>

definition new_scraper ::
  "(string \<rightharpoonup> string list list) \<Rightarrow> (string \<rightharpoonup> 'j) \<Rightarrow> ('j, 'r) scraper" where
  "new_scraper csvs jsons =
     \<lparr> csv_files = csvs, json_files = jsons, history = [], quit_calls = 0, scraped_data = [] \<rparr>"


section \<open>The shallow scraper: \<^verbatim>\<open>myntra2_fast.py\<close>\<close>

subsection \<open>\<^verbatim>\<open>ProductInfo\<close>\<close>

text \<open>
  The dataclass. A field that is assigned what \<^verbatim>\<open>get_attribute\<close> returns can hold
  \<^verbatim>\<open>None\<close>; the others only ever hold strings.
\<close>

record ProductInfo =
  search_term :: string
  brand_name :: "string option"
  current_price :: "string option"
  product_rating :: "string option"
  product_title :: "string option"
  original_price_listing :: "string option"
  sale_price :: "string option"
  discount_percent :: "string option"
  category_path :: string
  product_link :: "string option"
  image_link :: "string option"
  review_count :: string
  size_options :: string

definition new_ProductInfo :: "string \<Rightarrow> ProductInfo" where
  "new_ProductInfo term =
     \<lparr> search_term = term,
       brand_name = Some ''N/A'',
       current_price = Some ''N/A'',
       product_rating = Some ''N/A'',
       product_title = Some ''N/A'',
       original_price_listing = Some ''N/A'',
       sale_price = Some ''N/A'',
       discount_percent = Some ''N/A'',
       category_path = ''N/A'',
       product_link = Some ''N/A'',
       image_link = Some ''N/A'',
       review_count = ''N/A'',
       size_options = ''N/A'' \<rparr>"

text \<open>\<^verbatim>\<open>setattr(product, field, value)\<close> for the field names of the extraction map.\<close>

definition setattr :: "ProductInfo \<Rightarrow> string \<Rightarrow> string option \<Rightarrow> ProductInfo" where
  "setattr product field v =
     (if field = ''brand_name'' then product\<lparr>brand_name := v\<rparr>
      else if field = ''current_price'' then product\<lparr>current_price := v\<rparr>
      else if field = ''product_rating'' then product\<lparr>product_rating := v\<rparr>
      else if field = ''product_title'' then product\<lparr>product_title := v\<rparr>
      else if field = ''original_price'' then product\<lparr>original_price_listing := v\<rparr>
      else if field = ''sale_price'' then product\<lparr>sale_price := v\<rparr>
      else if field = ''discount_percent'' then product\<lparr>discount_percent := v\<rparr>
      else product)"

text \<open>\<^verbatim>\<open>getattr(product, field)\<close> for the same names.\<close>

definition getattr :: "ProductInfo \<Rightarrow> string \<Rightarrow> string option" where
  "getattr product field =
     (if field = ''brand_name'' then brand_name product
      else if field = ''current_price'' then current_price product
      else if field = ''product_rating'' then product_rating product
      else if field = ''product_title'' then product_title product
      else if field = ''original_price'' then original_price_listing product
      else if field = ''sale_price'' then sale_price product
      else if field = ''discount_percent'' then discount_percent product
      else None)"

subsection \<open>\<^verbatim>\<open>extract_product_details\<close>\<close>

definition extraction_map :: "(string \<times> string \<times> string) list" where
  "extraction_map =
     [(''brand_name'', ''product-brand'', ''text''),
      (''current_price'', ''product-discountedPrice'', ''text''),
      (''product_rating'', ''product-ratingsContainer'', ''text''),
      (''product_title'', ''product-product'', ''text''),
      (''original_price'', ''product-strike'', ''text''),
      (''sale_price'', ''product-discountedPrice'', ''text''),
      (''discount_percent'', ''product-discountPercentage'', ''text'')]"

text \<open>
  A lookup guarded by \<^verbatim>\<open>except NoSuchElementException: pass\<close>: the node when there is one,
  nothing when it is missing, and any other exception goes on to the caller.
\<close>

definition find_or_pass :: "search_context \<Rightarrow> By \<Rightarrow> string \<Rightarrow> exn + node option" where
  "find_or_pass ctx b sel =
     (case find_element ctx b sel of
        Inr element \<Rightarrow> Inr (Some element)
      | Inl e \<Rightarrow> (if e = NoSuchElementException then Inr None else Inl e))"

fun extract_fields ::
  "(string \<times> string \<times> string) list \<Rightarrow> node \<Rightarrow> ProductInfo \<Rightarrow> exn + ProductInfo" where
  "extract_fields [] product_element product = Inr product"
| "extract_fields ((field, class_name, attr_type) # rest) product_element product =
     (case find_or_pass (below product_element) CLASS_NAME class_name of
        Inl e \<Rightarrow> Inl e
      | Inr None \<Rightarrow> extract_fields rest product_element product
      | Inr (Some element) \<Rightarrow>
          extract_fields rest product_element
            (setattr product field
               (if attr_type = ''text'' then Some (node_text element)
                else get_attribute element attr_type)))"

text \<open>What one entry of the extraction map does to the record when its lookup does not
  raise: the field is set if the node is there and left alone if it is missing.\<close>

definition read_field :: "node \<Rightarrow> string \<times> string \<times> string \<Rightarrow> ProductInfo \<Rightarrow> ProductInfo" where
  "read_field product_element spec product =
     (case find_element (below product_element) CLASS_NAME (fst (snd spec)) of
        Inr element \<Rightarrow>
          setattr product (fst spec)
            (if snd (snd spec) = ''text'' then Some (node_text element)
             else get_attribute element (snd (snd spec)))
      | Inl _ \<Rightarrow> product)"

definition extract_product_details_fast ::
  "search_context \<Rightarrow> node \<Rightarrow> string \<Rightarrow> exn + ProductInfo" where
  "extract_product_details_fast driver product_element term =
     (case extract_fields extraction_map product_element (new_ProductInfo term) of
        Inl e \<Rightarrow> Inl e
      | Inr p1 \<Rightarrow>
     (case find_or_pass (below product_element) CSS_SELECTOR ''a[data-refreshpage='true']'' of
        Inl e \<Rightarrow> Inl e
      | Inr link_element \<Rightarrow>
     (let p2 = (case link_element of None \<Rightarrow> p1
                | Some l \<Rightarrow> p1\<lparr>product_link := get_attribute l ''href''\<rparr>) in
      case find_or_pass (below product_element) CSS_SELECTOR ''img.img-responsive'' of
        Inl e \<Rightarrow> Inl e
      | Inr img_element \<Rightarrow>
     (let p3 = (case img_element of None \<Rightarrow> p2
                | Some i \<Rightarrow> p2\<lparr>image_link := get_attribute i ''src''\<rparr>) in
      case find_or_pass (below product_element) CSS_SELECTOR ''.product-ratingsCount'' of
        Inl e \<Rightarrow> Inl e
      | Inr review_element \<Rightarrow>
     (let p4 = (case review_element of None \<Rightarrow> p3
                | Some r \<Rightarrow>
                    p3\<lparr>review_count :=
                         strip_chars (\<lambda>c. c \<in> set ''()'') (node_text r)\<rparr>) in
      case find_or_pass driver CSS_SELECTOR
             ''span.breadcrumbs-crumb[style='font-size: 14px; margin: 0px;']'' of
        Inl e \<Rightarrow> Inl e
      | Inr breadcrumb_element \<Rightarrow>
          Inr (case breadcrumb_element of None \<Rightarrow> p4
               | Some c \<Rightarrow> p4\<lparr>category_path := node_text c\<rparr>))))))"

subsection \<open>\<^verbatim>\<open>scrape_products_from_page\<close>\<close>

fun scrape_elements ::
  "search_context \<Rightarrow> string \<Rightarrow> node list \<Rightarrow> ProductInfo list \<Rightarrow> exn + ProductInfo list" where
  "scrape_elements driver term [] products = Inr products"
| "scrape_elements driver term (element # rest) products =
     (case extract_product_details_fast driver element term of
        Inr product_info \<Rightarrow> scrape_elements driver term rest (products @ [product_info])
      | Inl e \<Rightarrow>
          if is_Exception e then scrape_elements driver term rest products else Inl e)"

definition scrape_products_from_page ::
  "site \<Rightarrow> string \<Rightarrow> string \<Rightarrow> ('j, 'z) machine_scheme
     \<Rightarrow> (exn + ProductInfo list) \<times> ('j, 'z) machine_scheme" where
  "scrape_products_from_page w term page_url st =
     (case driver_get w (Some page_url) st of
        (Inl e, st') \<Rightarrow> (only_timeout e, st')
      | (Inr page, st') \<Rightarrow>
          (case wait_presence_of_all page CLASS_NAME ''product-base'' of
             Inl e \<Rightarrow> (only_timeout e, st')
           | Inr product_elements \<Rightarrow>
               if product_elements = [] then (Inr [], st')
               else
                 (case scrape_elements page term product_elements [] of
                    Inl e \<Rightarrow> (only_timeout e, st')
                  | Inr products \<Rightarrow> (Inr products, st'))))"

text \<open>What \<^verbatim>\<open>scrape_products_from_page\<close> returns for a URL; it does not depend on the
  state it starts from.\<close>

definition products_of_page :: "site \<Rightarrow> string \<Rightarrow> string \<Rightarrow> exn + ProductInfo list" where
  "products_of_page w term url =
     fst (scrape_products_from_page w term url
            (\<lparr> csv_files = Map.empty, json_files = Map.empty, history = [],
               quit_calls = 0 \<rparr> :: unit machine))"

text \<open>The records a fetched page contributes: its products, and none when the fetch
  raised.\<close>

definition page_records :: "site \<Rightarrow> string \<Rightarrow> string \<Rightarrow> ProductInfo list" where
  "page_records w term url =
     (case products_of_page w term url of Inr products \<Rightarrow> products | Inl _ \<Rightarrow> [])"

subsection \<open>\<^verbatim>\<open>save_to_csv\<close>\<close>

definition fieldnames_fast :: "string list" where
  "fieldnames_fast =
     [''search_term'', ''brand_name'', ''current_price'', ''product_rating'',
      ''product_title'', ''original_price'', ''sale_price'', ''discount_percent'',
      ''category_path'', ''product_link'', ''image_link'', ''review_count'', ''size_options'']"

text \<open>The row the CSV writer makes of \<^verbatim>\<open>product.__dict__\<close>: the values in the order of the
  field names, \<^verbatim>\<open>None\<close> written as the empty string.\<close>

definition csv_cell :: "string option \<Rightarrow> string" where
  "csv_cell v = (case v of None \<Rightarrow> [] | Some s \<Rightarrow> s)"

definition csv_row_fast :: "ProductInfo \<Rightarrow> string list" where
  "csv_row_fast product =
     [search_term product, csv_cell (brand_name product), csv_cell (current_price product),
      csv_cell (product_rating product), csv_cell (product_title product),
      csv_cell (original_price_listing product), csv_cell (sale_price product),
      csv_cell (discount_percent product), category_path product,
      csv_cell (product_link product), csv_cell (image_link product),
      review_count product, size_options product]"

definition save_to_csv ::
  "ProductInfo list \<Rightarrow> string \<Rightarrow> bool \<Rightarrow> (string \<rightharpoonup> string list list)
     \<Rightarrow> (string \<rightharpoonup> string list list)" where
  "save_to_csv products filename append_mode disk =
     (let path = filename @ ''.csv'';
          mode = (if append_mode \<and> disk path \<noteq> None then CHR ''a'' else CHR ''w'')
      in if mode = CHR ''w''
         then disk(path \<mapsto> fieldnames_fast # map csv_row_fast products)
         else disk(path \<mapsto> (case disk path of None \<Rightarrow> [] | Some rows \<Rightarrow> rows)
                                @ map csv_row_fast products))"

text \<open>The rows of a CSV file after data rows were appended in append mode: nothing changes
  when there are no rows, and a file that did not exist starts with the header.\<close>

definition rows_after ::
  "string list list option \<Rightarrow> string list list \<Rightarrow> string list list option" where
  "rows_after old rows =
     (if rows = [] then old
      else Some ((case old of None \<Rightarrow> [fieldnames_fast] | Some r \<Rightarrow> r) @ rows))"

subsection \<open>The session of \<^verbatim>\<open>myntra2_fast.py\<close>\<close>

text \<open>The scraper object: \<open>driver_started\<close> says that \<^verbatim>\<open>self.driver\<close> is set, and
  \<open>chrome_starts\<close> counts the browsers opened by \<^verbatim>\<open>webdriver.Chrome(...)\<close>.\<close>

record 'j fast_scraper = "'j machine" +
  driver_started :: bool
  chrome_starts :: nat

type_synonym fast_state = "(string \<times> string option) list fast_scraper"

definition initialize_browser :: "fast_state \<Rightarrow> fast_state" where
  "initialize_browser st = st\<lparr>driver_started := True, chrome_starts := Suc (chrome_starts st)\<rparr>"

definition close_browser :: "fast_state \<Rightarrow> fast_state" where
  "close_browser st =
     (if driver_started st then st\<lparr>quit_calls := Suc (quit_calls st)\<rparr> else st)"

definition search_and_get_url ::
  "site \<Rightarrow> string \<Rightarrow> fast_state \<Rightarrow> (exn + string option) \<times> fast_state" where
  "search_and_get_url w search_query st =
     (case driver_get w (Some ''https://www.myntra.com'') st of
        (Inl e, st') \<Rightarrow> (swallow_Exception e, st')
      | (Inr home, st') \<Rightarrow>
          (case find_element home CLASS_NAME ''desktop-searchBar'' of
             Inl e \<Rightarrow> (swallow_Exception e, st')
           | Inr search_input \<Rightarrow>
               (case submit_search w search_query of
                  Inl e \<Rightarrow> (swallow_Exception e, st')
                | Inr current_url \<Rightarrow> (Inr (Some current_url), st'))))"

text \<open>\<^verbatim>\<open>str(n)\<close> for a page number.\<close>

function str_nat :: "nat \<Rightarrow> string" where
  "str_nat n =
     (if n < 10 then [char_of (48 + n)] else str_nat (n div 10) @ [char_of (48 + n mod 10)])"
  by pat_completeness auto
termination
  by (relation "measure id") auto

declare str_nat.simps [simp del]

definition page_url :: "string \<Rightarrow> nat \<Rightarrow> string" where
  "page_url base_url current_page = base_url @ ''&p='' @ str_nat current_page"

text \<open>
  The \<^verbatim>\<open>while current_page <= pages_to_scrape\<close> loop for one search term. With
  \<open>max_pages \<le> 0\<close> the bound is infinite, and the loop ends only at a page without
  products or at an exception; a run that never ends is \<open>None\<close>.
\<close>

partial_function (option) page_loop ::
  "site \<Rightarrow> string \<Rightarrow> string \<Rightarrow> int \<Rightarrow> string \<Rightarrow> nat \<Rightarrow> ProductInfo list \<Rightarrow> fast_state
     \<Rightarrow> (exn option \<times> ProductInfo list \<times> fast_state) option" where
  "page_loop w term base_url max_pages output_file current_page all_products st =
     (if max_pages > 0 \<longrightarrow> int current_page \<le> max_pages then
        (case scrape_products_from_page w term (page_url base_url current_page) st of
           (Inl e, st') \<Rightarrow> Some (Some e, all_products, st')
         | (Inr page_products, st') \<Rightarrow>
             if page_products = [] then Some (None, all_products, st')
             else page_loop w term base_url max_pages output_file (Suc current_page)
                    (all_products @ page_products)
                    (st'\<lparr>csv_files := save_to_csv page_products output_file True (csv_files st')\<rparr>))
      else Some (None, all_products, st))"

fun term_loop ::
  "site \<Rightarrow> int \<Rightarrow> string \<Rightarrow> (string \<times> string option) list \<Rightarrow> ProductInfo list \<Rightarrow> fast_state
     \<Rightarrow> (exn option \<times> ProductInfo list \<times> fast_state) option" where
  "term_loop w max_pages output_file [] all_products st = Some (None, all_products, st)"
| "term_loop w max_pages output_file ((term, base_url) # rest) all_products st =
     (if base_url = None \<or> base_url = Some [] then
        term_loop w max_pages output_file rest all_products st
      else
        (case page_loop w term (the base_url) max_pages output_file 1 all_products st of
           None \<Rightarrow> None
         | Some (Some e, all_products', st') \<Rightarrow> Some (Some e, all_products', st')
         | Some (None, all_products', st') \<Rightarrow>
             term_loop w max_pages output_file rest all_products' st'))"

fun generate_search_urls ::
  "site \<Rightarrow> string list \<Rightarrow> (string \<times> string option) list \<Rightarrow> fast_state
     \<Rightarrow> (exn + (string \<times> string option) list) \<times> fast_state" where
  "generate_search_urls w [] search_urls st = (Inr search_urls, st)"
| "generate_search_urls w (term # rest) search_urls st =
     (case search_and_get_url w term st of
        (Inl e, st') \<Rightarrow> (Inl e, st')
      | (Inr url, st') \<Rightarrow>
          generate_search_urls w rest (AList.update term url search_urls) st')"

text \<open>
  \<^verbatim>\<open>run_scraping_session\<close>: the exception that leaves it, if any, the products it
  accumulated, and the state. Only the second loop stands inside the \<^verbatim>\<open>try\<close>: the
  generation of the search URLs and the write of \<^verbatim>\<open>search_urls.json\<close> stand before it, so
  an exception there leaves the function without passing its \<^verbatim>\<open>finally\<close>. The parameter
  \<open>urls_file\<close> is what opening \<^verbatim>\<open>search_urls.json\<close> for writing raises, if anything.
\<close>

definition run_scraping_session_fast ::
  "site \<Rightarrow> exn option \<Rightarrow> string list \<Rightarrow> int \<Rightarrow> string \<Rightarrow> fast_state
     \<Rightarrow> (exn option \<times> ProductInfo list \<times> fast_state) option" where
  "run_scraping_session_fast w urls_file search_terms max_pages output_file st =
     (case generate_search_urls w search_terms [] st of
        (Inl e, st1) \<Rightarrow> Some (Some e, [], st1)
      | (Inr search_urls, st1) \<Rightarrow>
          (case urls_file of
             Some e \<Rightarrow> Some (Some e, [], st1)
           | None \<Rightarrow>
          (let st2 = st1\<lparr>json_files := (json_files st1)(''search_urls.json'' \<mapsto> search_urls)\<rparr>
           in case term_loop w max_pages output_file search_urls [] st2 of
                None \<Rightarrow> None
              | Some (raised, all_products, st3) \<Rightarrow>
                  Some ((case raised of
                           None \<Rightarrow> None
                         | Some e \<Rightarrow> if is_Exception e then None else Some e),
                        all_products, close_browser st3))))"

definition new_fast_scraper ::
  "(string \<rightharpoonup> string list list) \<Rightarrow> (string \<rightharpoonup> (string \<times> string option) list) \<Rightarrow> fast_state"
  where
  "new_fast_scraper csvs jsons =
     \<lparr> csv_files = csvs, json_files = jsons, history = [], quit_calls = 0,
       driver_started = False, chrome_starts = 0 \<rparr>"

text \<open>\<^verbatim>\<open>main\<close>, with the search terms it fixes as a parameter, in a run in which the
  browser starts (when \<^verbatim>\<open>webdriver.Chrome\<close> raises, \<^verbatim>\<open>main\<close> ends before its \<^verbatim>\<open>try\<close> and there
  is no driver to release): both \<^verbatim>\<open>except\<close> clauses only print, so nothing leaves
  \<^verbatim>\<open>main\<close>, and the \<^verbatim>\<open>finally\<close> closes the browser again.\<close>

definition main_fast ::
  "site \<Rightarrow> exn option \<Rightarrow> string list \<Rightarrow> int \<Rightarrow> string \<Rightarrow> fast_state \<Rightarrow> fast_state option"
  where
  "main_fast w urls_file search_items max_pages output_filename scraper =
     (case run_scraping_session_fast w urls_file search_items max_pages output_filename
             (initialize_browser scraper) of
        None \<Rightarrow> None
      | Some (raised, all_products, st) \<Rightarrow> Some (close_browser st))"

section \<open>Example pages\<close>

definition leaf :: "string \<Rightarrow> (string \<times> string) list \<Rightarrow> node" where
  "leaf t attrs = Node t attrs (\<lambda>_ _. Inr [])"

definition empty_page :: search_context where
  "empty_page b sel = Inr []"

text \<open>A product page with a discounted-price node and no original-price node.\<close>

definition page_price_only :: search_context where
  "page_price_only b sel =
     (if b = CLASS_NAME \<and> sel = ''pdp-price'' then Inr [leaf ''Rs. 499'' []] else Inr [])"

definition shop_price_only :: site where
  "shop_price_only =
     \<lparr> get_page = (\<lambda>_. Inr page_price_only),
       submit_search = (\<lambda>_. Inr ''https://www.myntra.com/white-shirt'') \<rparr>"

definition fresh_myntra :: "(myntra_info list, myntra_info) scraper" where
  "fresh_myntra = new_scraper Map.empty Map.empty"

definition fresh_nykaa :: "(product_info list, product_info) scraper" where
  "fresh_nykaa = new_scraper Map.empty Map.empty"

text \<open>Three strategies: a relative path, an absolute URL with a query, another absolute URL.\<close>

definition example_strategies :: "strategy list" where
  "example_strategies =
     [(\<lambda>_. Inr (Some ''/img/123.jpg'')),
      (\<lambda>_. Inr (Some ''https://cdn.site.com/img/123.jpg?w=200'')),
      (\<lambda>_. Inr (Some ''https://cdn.site.com/other.jpg''))]"

definition abstaining_strategies :: "strategy list" where
  "abstaining_strategies =
     [(\<lambda>_. Inl NoSuchElementException), (\<lambda>_. Inr None), (\<lambda>_. Inr (Some []))]"

text \<open>Size buttons: \<open>S\<close> enabled and \<open>M\<close> disabled; a page whose first two buttons are
  labelled with a space and with a no-break space; a page whose second button has no class
  attribute; and a page on which every lookup raises.\<close>

definition sizes_S_M :: "node list" where
  "sizes_S_M =
     [leaf ''S'' [(''class'', ''size-buttons-size-button'')],
      leaf ''M'' [(''class'', ''size-buttons-size-button size-buttons-size-button-disabled'')]]"

definition page_sizes_S_M :: search_context where
  "page_sizes_S_M b sel =
     (if b = CLASS_NAME \<and> sel = ''size-buttons-size-button'' then Inr sizes_S_M else Inr [])"

definition sizes_blank_M :: "node list" where
  "sizes_blank_M =
     [leaf '' '' [(''class'', ''size-buttons-size-button'')],
      leaf [CHR 0xA0] [(''class'', ''size-buttons-size-button'')],
      leaf ''M'' [(''class'', ''size-buttons-size-button''), (''aria-disabled'', ''true'')]]"

definition page_sizes_blank_M :: search_context where
  "page_sizes_blank_M b sel =
     (if b = CLASS_NAME \<and> sel = ''size-buttons-size-button'' then Inr sizes_blank_M
      else Inr [])"

definition sizes_no_class :: "node list" where
  "sizes_no_class =
     [leaf ''S'' [(''class'', ''size-buttons-size-button'')], leaf ''M'' []]"

definition page_sizes_no_class :: search_context where
  "page_sizes_no_class b sel =
     (if b = CLASS_NAME \<and> sel = ''size-buttons-size-button'' then Inr sizes_no_class
      else Inr [])"

definition page_lookups_fail :: search_context where
  "page_lookups_fail b sel = Inl WebDriverException"

text \<open>A listing: a home page with the search box, one results page with a product card and
  a card whose handle is stale, and nothing on any other page.\<close>

definition card_A :: node where
  "card_A = Node [] []
     (\<lambda>b sel. if b = CLASS_NAME \<and> sel = ''product-brand'' then Inr [leaf ''Roadster'' []]
               else Inr [])"

definition card_stale :: node where
  "card_stale = Node [] [] (\<lambda>b sel. Inl WebDriverException)"

definition home_page :: search_context where
  "home_page b sel =
     (if b = CLASS_NAME \<and> sel = ''desktop-searchBar'' then Inr [leaf [] []] else Inr [])"

definition listing_page :: search_context where
  "listing_page b sel =
     (if b = CLASS_NAME \<and> sel = ''product-base'' then Inr [card_A, card_stale] else Inr [])"

definition small_shop :: site where
  "small_shop =
     \<lparr> get_page = (\<lambda>u. if u = ''https://www.myntra.com'' then Inr home_page
                        else if u = ''https://www.myntra.com/shirt?q=1&p=1'' then Inr listing_page
                        else Inr empty_page),
       submit_search = (\<lambda>_. Inr ''https://www.myntra.com/shirt?q=1'') \<rparr>"

definition fresh_fast :: fast_state where
  "fresh_fast = new_fast_scraper Map.empty Map.empty"

text \<open>A shop for the deep scraper: three products are listed, and the visit of the second
  one raises the given exception.\<close>

definition link_item :: "string \<Rightarrow> node" where
  "link_item u = Node [] []
     (\<lambda>b sel. if b = TAG_NAME \<and> sel = ''a'' then Inr [leaf [] [(''href'', u)]] else Inr [])"

definition results_page :: search_context where
  "results_page b sel =
     (if b = XPATH \<and> sel = ''//li[@class='product-base']''
      then Inr [link_item ''https://www.myntra.com/shirt/1'',
                link_item ''https://www.myntra.com/shirt/2'',
                link_item ''https://www.myntra.com/shirt/3'']
      else Inr [])"

definition deep_shop :: "exn \<Rightarrow> site" where
  "deep_shop e =
     \<lparr> get_page = (\<lambda>u. if u = ''https://www.myntra.com'' then Inr home_page
                        else if u = ''https://www.myntra.com/white-shirt'' then Inr results_page
                        else if u = ''https://www.myntra.com/shirt/2'' then Inl e
                        else Inr page_price_only),
       submit_search = (\<lambda>_. Inr ''https://www.myntra.com/white-shirt'') \<rparr>"

definition shirt_urls :: "string option list" where
  "shirt_urls =
     [Some ''https://www.myntra.com/shirt/1'', Some ''https://www.myntra.com/shirt/2'',
      Some ''https://www.myntra.com/shirt/3'']"

text \<open>A site on which every request is interrupted.\<close>

definition interrupted_shop :: site where
  "interrupted_shop =
     \<lparr> get_page = (\<lambda>_. Inl KeyboardInterrupt), submit_search = (\<lambda>_. Inl KeyboardInterrupt) \<rparr>"

text \<open>A product card whose link node has no \<open>href\<close> and whose image node has no
  \<open>src\<close>.\<close>

definition card_no_href :: node where
  "card_no_href = Node [] []
     (\<lambda>b sel. if b = CSS_SELECTOR \<and> sel = ''a[data-refreshpage='true']''
               then Inr [leaf [] [(''data-refreshpage'', ''true'')]]
               else if b = CSS_SELECTOR \<and> sel = ''img.img-responsive''
               then Inr [leaf [] [(''class'', ''img-responsive'')]]
               else Inr [])"

section \<open>Properties of the deep scrapers\<close>

subsection \<open>Evaluation of strings\<close>

lemma strip_price [simp]: "strip ''Rs. 499'' = ''Rs. 499''"
  by (simp add: strip_def strip_chars_def isspace_def)

lemma strip_S [simp]: "strip ''S'' = ''S''"
  by (simp add: strip_def strip_chars_def isspace_def)

lemma strip_M [simp]: "strip ''M'' = ''M''"
  by (simp add: strip_def strip_chars_def isspace_def)

lemma strip_blank [simp]: "strip '' '' = []"
  by (simp add: strip_def strip_chars_def isspace_def)

subsection \<open>The original price\<close>

lemma safe_extract_missing:
  "find_element page b sel = Inl e \<Longrightarrow> safe_extract page b sel = ''N/A''"
  by (simp add: safe_extract_def)

lemma safe_extract_xpath_missing:
  "find_element page XPATH xpath = Inl e \<Longrightarrow> safe_extract_xpath page xpath = ''N/A''"
  by (simp add: safe_extract_xpath_def)

text \<open>On Nykaa a missing original-price node leaves the record with the discounted price in
  both fields.\<close>

lemma nykaa_original_price_defaults:
  assumes "get_page w u = Inr page"
    and "find_element page XPATH ''//span[@class=' css-1byl9fj']'' = Inl e"
    and "extract_product_details_nykaa w (Some u) keyword st = (Inr (Some info), st')"
  shows "original_price info = discounted_price info"
  using assms
  by (auto simp: extract_product_details_nykaa_def driver_get_def Let_def
        product_info_nykaa_def safe_extract_xpath_def)

text \<open>On Myntra the test \<^verbatim>\<open>if not product_info["original_price"]\<close> sees the sentinel, which
  is a non-empty string, and the record keeps it.\<close>

lemma myntra_original_price_keeps_sentinel:
  assumes "get_page w u = Inr page"
    and "find_element page CLASS_NAME ''pdp-mrp'' = Inl e"
    and "extract_product_details_myntra w (Some u) keyword st = (Inr (Some info), st')"
  shows "original_price info = ''N/A''"
  using assms
  by (auto simp: extract_product_details_myntra_def driver_get_def Let_def
        product_info_myntra_def safe_extract_def)

lemma price_only_discounted:
  "safe_extract page_price_only CLASS_NAME ''pdp-price'' = ''Rs. 499''"
  by (simp add: safe_extract_def find_element_def page_price_only_def leaf_def)

lemma price_only_original:
  "safe_extract page_price_only CLASS_NAME ''pdp-mrp'' = ''N/A''"
  by (simp add: safe_extract_def find_element_def page_price_only_def)

text \<open>
  Claim C1. A record whose original-price node is missing should carry the discounted price
  as its original price. On the Myntra product page that has a discounted-price node
  reading \<open>Rs. 499\<close> and no original-price node, \<^verbatim>\<open>extract_product_details\<close> of
  \<^verbatim>\<open>myntra_new.py\<close> returns a record whose discounted price is \<open>Rs. 499\<close> and whose
  original price is still the sentinel \<open>N/A\<close>.
\<close>

theorem C1_myntra_original_price_stays_sentinel:
  "(case fst (extract_product_details_myntra shop_price_only
                (Some ''https://www.myntra.com/shirt/1'') ''white shirt'' fresh_myntra) of
      Inr (Some info) \<Rightarrow>
        discounted_price info = ''Rs. 499'' \<and> original_price info = ''N/A''
        \<and> original_price info \<noteq> discounted_price info
    | _ \<Rightarrow> False)"
  by (simp add: extract_product_details_myntra_def driver_get_def shop_price_only_def
        product_info_myntra_def price_only_discounted price_only_original Let_def)

subsection \<open>The image strategy chain\<close>

lemma try_strategies_abstain:
  "\<not> accepted (s page)
   \<Longrightarrow> try_strategies (s # rest) page = apsnd Suc (try_strategies rest page)"
  by (auto simp: accepted_def split: sum.splits option.splits)

lemma try_strategies_accept:
  "s page = Inr (Some v) \<Longrightarrow> accepted (s page)
   \<Longrightarrow> try_strategies (s # rest) page = (before_query v, 1)"
  by (auto simp: accepted_def)

lemma try_strategies_first:
  "i < length ss \<Longrightarrow> (ss ! i) page = Inr (Some v) \<Longrightarrow> accepted ((ss ! i) page)
   \<Longrightarrow> (\<forall>j<i. \<not> accepted ((ss ! j) page))
   \<Longrightarrow> try_strategies ss page = (before_query v, Suc i)"
proof (induction ss arbitrary: i)
  case Nil
  then show ?case by simp
next
  case (Cons s rest)
  show ?case
  proof (cases i)
    case 0
    with Cons.prems show ?thesis
      by (simp add: try_strategies_accept del: try_strategies.simps)
  next
    case (Suc k)
    have first: "\<not> accepted (s page)"
      using Cons.prems(4) Suc by auto
    have "try_strategies rest page = (before_query v, Suc k)"
      using Cons.prems Suc by (intro Cons.IH) auto
    then show ?thesis
      using first Suc by (simp add: try_strategies_abstain del: try_strategies.simps)
  qed
qed

lemma try_strategies_none:
  "(\<forall>j<length ss. \<not> accepted ((ss ! j) page))
   \<Longrightarrow> try_strategies ss page = (''Image not available'', length ss)"
proof (induction ss)
  case Nil
  then show ?case by simp
next
  case (Cons s rest)
  have first: "\<not> accepted (s page)"
    using Cons.prems by auto
  have "try_strategies rest page = (''Image not available'', length rest)"
    using Cons.prems by (intro Cons.IH) auto
  then show ?case
    using first by (simp add: try_strategies_abstain del: try_strategies.simps)
qed

text \<open>
  Claim C3. For every strategy list and page: if strategy \<open>i\<close> is the first whose value is a
  non-empty string starting with \<open>http\<close> (every earlier one returned nothing, an empty or
  non-\<open>http\<close> string, or raised), the chain returns that value cut at the first \<open>?\<close> and
  has called exactly the strategies \<open>0, \<dots>, i\<close>, none after it; if no strategy yields such
  a value, the chain has called all of them and returns the sentinel
  \<open>Image not available\<close>.
\<close>

theorem C3_image_chain_first_accepted:
  "(i < length ss \<and> (ss ! i) page = Inr (Some v) \<and> v \<noteq> [] \<and> startswith v ''http''
      \<and> (\<forall>j<i. \<not> accepted ((ss ! j) page))
     \<longrightarrow> try_strategies ss page = (takeWhile (\<lambda>c. c \<noteq> CHR ''?'') v, Suc i))
   \<and> ((\<forall>j<length ss. \<not> accepted ((ss ! j) page))
     \<longrightarrow> try_strategies ss page = (''Image not available'', length ss))"
  using try_strategies_first [of i ss page v] try_strategies_none [of ss page]
  by (simp add: accepted_def before_query_def)

theorem C3_image_chain_witness:
  "try_strategies example_strategies empty_page = (''https://cdn.site.com/img/123.jpg'', 2)
   \<and> try_strategies abstaining_strategies empty_page = (''Image not available'', 3)"
  using C3_image_chain_first_accepted [of 1 example_strategies empty_page
          "''https://cdn.site.com/img/123.jpg?w=200''"]
        C3_image_chain_first_accepted [of 0 abstaining_strategies empty_page "[]"]
  by (simp add: example_strategies_def abstaining_strategies_def accepted_def startswith_def
        All_less_Suc)

subsection \<open>Sizes\<close>

lemma strip_nbsp [simp]: "strip [CHR 0xA0] = []"
  by (simp add: strip_def strip_chars_def isspace_def)

lemma size_loop_labelled:
  "(\<forall>button\<in>set buttons.
      strip (node_text button) \<noteq> [] \<longrightarrow> get_attribute button ''class'' \<noteq> None)
   \<Longrightarrow> size_loop buttons acc =
      Inr (acc @ map (\<lambda>button. size_entry (strip (node_text button))
                        (contains ''disabled'' (the (get_attribute button ''class''))
                         \<or> get_attribute button ''aria-disabled'' = Some ''true''))
                   (filter (\<lambda>button. strip (node_text button) \<noteq> []) buttons))"
  by (induction buttons arbitrary: acc)
     (auto simp: is_disabled_def Let_def split: option.splits)

lemma size_loop_missing_class:
  "\<exists>button\<in>set buttons. strip (node_text button) \<noteq> [] \<and> get_attribute button ''class'' = None
   \<Longrightarrow> size_loop buttons acc = Inl TypeError"
proof (induction buttons arbitrary: acc)
  case Nil
  then show ?case by simp
next
  case (Cons b rest)
  show ?case
  proof (cases "strip (node_text b) \<noteq> [] \<and> get_attribute b ''class'' = None")
    case True
    then show ?thesis by (simp add: is_disabled_def)
  next
    case False
    with Cons.prems have "\<exists>button\<in>set rest. strip (node_text button) \<noteq> []
        \<and> get_attribute button ''class'' = None" by auto
    from Cons.IH [OF this] show ?thesis
      by (simp add: Let_def is_disabled_def split: option.splits)
  qed
qed

text \<open>
  Claim C8, as stated, fails on a page whose first two size buttons are labelled with a
  space and with a no-break space: of the three size elements only the third yields an
  entry.
\<close>

theorem C8_blank_label_is_dropped:
  "find_elements page_sizes_blank_M CLASS_NAME ''size-buttons-size-button''
     = Inr sizes_blank_M
   \<and> length sizes_blank_M = 3
   \<and> extract_size_options_myntra page_sizes_blank_M = [''M (Out of Stock)'']
   \<and> length (extract_size_options_myntra page_sizes_blank_M)
        \<noteq> length sizes_blank_M"
  by (simp add: extract_size_options_myntra_def extract_size_options_at_def find_elements_def
        page_sizes_blank_M_def sizes_blank_M_def leaf_def get_attribute_def is_disabled_def size_entry_def)

text \<open>
  Claim C8, amended. Size extraction maps the size elements whose stripped text is not
  empty, in DOM order, to the entries \<open>label (Out of Stock)\<close> or \<open>label (In Stock)\<close>: out
  of stock exactly when the element's class contains \<open>disabled\<close> or its \<open>aria-disabled\<close>
  attribute is \<open>true\<close>. Elements with a blank label yield no entry. The result is empty
  when the lookup of the size elements raises, and when a labelled element has no class
  attribute.
\<close>

theorem C8_size_options_of_labelled_elements:
  "(find_elements page b sel = Inl e \<longrightarrow> extract_size_options_at b sel page = [])
   \<and> (find_elements page b sel = Inr buttons
        \<and> (\<exists>button\<in>set buttons.
              strip (node_text button) \<noteq> [] \<and> get_attribute button ''class'' = None)
      \<longrightarrow> extract_size_options_at b sel page = [])
   \<and> (find_elements page b sel = Inr buttons
        \<and> (\<forall>button\<in>set buttons.
              strip (node_text button) \<noteq> [] \<longrightarrow> get_attribute button ''class'' \<noteq> None)
      \<longrightarrow> extract_size_options_at b sel page =
           map (\<lambda>button. strip (node_text button) @ '' (''
                  @ (if contains ''disabled'' (the (get_attribute button ''class''))
                        \<or> get_attribute button ''aria-disabled'' = Some ''true''
                     then ''Out of Stock'' else ''In Stock'') @ '')'')
               (filter (\<lambda>button. strip (node_text button) \<noteq> []) buttons))"
proof (intro conjI impI)
  assume "find_elements page b sel = Inl e"
  then show "extract_size_options_at b sel page = []"
    by (simp add: extract_size_options_at_def)
next
  assume a: "find_elements page b sel = Inr buttons
        \<and> (\<exists>button\<in>set buttons.
              strip (node_text button) \<noteq> [] \<and> get_attribute button ''class'' = None)"
  then have "size_loop buttons [] = Inl TypeError"
    by (intro size_loop_missing_class) simp
  with a show "extract_size_options_at b sel page = []"
    by (simp add: extract_size_options_at_def)
next
  assume a: "find_elements page b sel = Inr buttons
        \<and> (\<forall>button\<in>set buttons.
              strip (node_text button) \<noteq> [] \<longrightarrow> get_attribute button ''class'' \<noteq> None)"
  then have "size_loop buttons [] =
      Inr ([] @ map (\<lambda>button. size_entry (strip (node_text button))
                        (contains ''disabled'' (the (get_attribute button ''class''))
                         \<or> get_attribute button ''aria-disabled'' = Some ''true''))
                   (filter (\<lambda>button. strip (node_text button) \<noteq> []) buttons))"
    by (intro size_loop_labelled) simp
  with a show "extract_size_options_at b sel page =
           map (\<lambda>button. strip (node_text button) @ '' (''
                  @ (if contains ''disabled'' (the (get_attribute button ''class''))
                        \<or> get_attribute button ''aria-disabled'' = Some ''true''
                     then ''Out of Stock'' else ''In Stock'') @ '')'')
               (filter (\<lambda>button. strip (node_text button) \<noteq> []) buttons)"
    by (simp add: extract_size_options_at_def size_entry_def)
qed

theorem C8_size_options_witness:
  "extract_size_options_myntra page_sizes_S_M = [''S (In Stock)'', ''M (Out of Stock)'']
   \<and> extract_size_options_myntra page_sizes_no_class = []
   \<and> extract_size_options_myntra page_lookups_fail = []"
proof -
  note t = C8_size_options_of_labelled_elements
  have a: "extract_size_options_myntra page_sizes_S_M = [''S (In Stock)'', ''M (Out of Stock)'']"
    using t [of page_sizes_S_M CLASS_NAME "''size-buttons-size-button''" undefined sizes_S_M]
    by (simp add: extract_size_options_myntra_def find_elements_def page_sizes_S_M_def
          sizes_S_M_def leaf_def get_attribute_def)
  have b: "extract_size_options_myntra page_sizes_no_class = []"
    using t [of page_sizes_no_class CLASS_NAME "''size-buttons-size-button''" undefined
                sizes_no_class]
    by (simp add: extract_size_options_myntra_def find_elements_def page_sizes_no_class_def
          sizes_no_class_def leaf_def get_attribute_def)
  have c: "extract_size_options_myntra page_lookups_fail = []"
    using t [of page_lookups_fail CLASS_NAME "''size-buttons-size-button''"
                WebDriverException undefined]
    by (simp add: extract_size_options_myntra_def find_elements_def page_lookups_fail_def)
  from a b c show ?thesis by simp
qed

subsection \<open>Saving nothing\<close>

text \<open>
  Claim C10. With no scraped record, \<^verbatim>\<open>save_data\<close> of either deep scraper returns the
  state it was given: no CSV file and no JSON file is created or changed.
\<close>

theorem C10_save_data_without_records:
  "(scraped_data st = [] \<longrightarrow> save_data_myntra filename st = st)
   \<and> (scraped_data st' = [] \<longrightarrow> save_data_nykaa filename' st' = st')"
  by (simp add: save_data_myntra_def save_data_nykaa_def)

theorem C10_save_data_witness:
  "scraped_data fresh_myntra = [] \<and> save_data_myntra ''out'' fresh_myntra = fresh_myntra
   \<and> scraped_data fresh_nykaa = [] \<and> save_data_nykaa ''out'' fresh_nykaa = fresh_nykaa"
  using C10_save_data_without_records [of fresh_myntra "''out''" fresh_nykaa "''out''"]
  by (simp add: fresh_myntra_def fresh_nykaa_def new_scraper_def)

text \<open>With a record, both files are written.\<close>

lemma save_data_myntra_writes:
  "scraped_data st \<noteq> []
   \<Longrightarrow> csv_files (save_data_myntra filename st) (filename @ ''.csv'')
         = Some (fieldnames_myntra # map csv_row_myntra (scraped_data st))
       \<and> json_files (save_data_myntra filename st) (filename @ ''.json'')
         = Some (scraped_data st)"
  by (simp add: save_data_myntra_def)

subsection \<open>Visiting the collected products\<close>

lemma extract_product_details_myntra_state:
  "extract_product_details_myntra w url term st =
     (fst (extract_product_details_myntra w url term st0), st\<lparr>history := history st @ [url]\<rparr>)"
  by (simp add: extract_product_details_myntra_def driver_get_def Let_def split: sum.splits option.splits)

lemma extract_product_details_myntra_caught:
  "(\<forall>u e. get_page w u = Inl e \<longrightarrow> is_Exception e)
   \<Longrightarrow> \<exists>r. fst (extract_product_details_myntra w url term st) = Inr r"
  by (auto simp add: extract_product_details_myntra_def driver_get_def Let_def is_Exception_def split: sum.splits option.splits)

lemma product_loop_myntra_all:
  assumes "\<forall>u e. get_page w u = Inl e \<longrightarrow> is_Exception e"
  shows "product_loop_myntra w term urls st =
     (None, st\<lparr>history := history st @ urls,
              scraped_data := scraped_data st @
                List.map_filter (\<lambda>url. case fst (extract_product_details_myntra w url term st0) of
                                     Inr d \<Rightarrow> d | Inl _ \<Rightarrow> None) urls\<rparr>)"
proof (induction urls arbitrary: st)
  case Nil
  then show ?case by simp
next
  case (Cons url rest)
  obtain r where r: "fst (extract_product_details_myntra w url term st0) = Inr r"
    using extract_product_details_myntra_caught [OF assms] by blast
  have step: "extract_product_details_myntra w url term st = (Inr r, st\<lparr>history := history st @ [url]\<rparr>)"
    using extract_product_details_myntra_state [of w url "term" st st0] r by simp
  show ?case
    by (cases r) (simp_all add: step r Cons.IH map_filter_simps)
qed

lemma product_loop_myntra_records:
  assumes "\<forall>u e. get_page w u = Inl e \<longrightarrow> is_Exception e"
  shows "product_loop_myntra w kw urls st =
     (None, st\<lparr>history := history st @ urls,
              scraped_data := scraped_data st @
                List.map_filter
                  (\<lambda>url. case url of
                      None \<Rightarrow> None
                    | Some u \<Rightarrow>
                        (case get_page w u of
                           Inl _ \<Rightarrow> None
                         | Inr page \<Rightarrow>
                             Some (let info = product_info_myntra page u kw
                                   in if original_price info = []
                                      then info\<lparr>original_price := discounted_price info\<rparr>
                                      else info))) urls\<rparr>)"
proof -
  have eq: "(\<lambda>url. case fst (extract_product_details_myntra w url kw st) of
                                     Inr d \<Rightarrow> d | Inl _ \<Rightarrow> None)
       = (\<lambda>url. case url of
                      None \<Rightarrow> None
                    | Some u \<Rightarrow>
                        (case get_page w u of
                           Inl _ \<Rightarrow> None
                         | Inr page \<Rightarrow>
                             Some (let info = product_info_myntra page u kw
                                   in if original_price info = []
                                      then info\<lparr>original_price := discounted_price info\<rparr>
                                      else info)))"
    using assms
    by (auto simp: fun_eq_iff extract_product_details_myntra_def driver_get_def Let_def
          is_Exception_def split: option.splits sum.splits)
  show ?thesis
    using product_loop_myntra_all [OF assms, of kw urls st st] unfolding eq .
qed









section \<open>Properties of the shallow scraper\<close>

subsection \<open>Fields of a listing element\<close>

lemma find_or_pass_missing_only:
  "(\<forall>e. find_element ctx b sel = Inl e \<longrightarrow> e = NoSuchElementException)
   \<Longrightarrow> find_or_pass ctx b sel =
        Inr (case find_element ctx b sel of Inr n \<Rightarrow> Some n | Inl _ \<Rightarrow> None)"
  by (auto simp: find_or_pass_def split: sum.splits)

lemma extract_fields_fold:
  "(\<forall>spec\<in>set specs. \<forall>e. find_element (below el) CLASS_NAME (fst (snd spec)) = Inl e
       \<longrightarrow> e = NoSuchElementException)
   \<Longrightarrow> extract_fields specs el p = Inr (foldl (\<lambda>p spec. read_field el spec p) p specs)"
proof (induction specs arbitrary: p)
  case Nil
  then show ?case by simp
next
  case (Cons spec specs)
  obtain field cls mode where spec: "spec = (field, cls, mode)" by (cases spec) auto
  have here: "find_or_pass (below el) CLASS_NAME cls =
        Inr (case find_element (below el) CLASS_NAME cls of Inr n \<Rightarrow> Some n | Inl _ \<Rightarrow> None)"
    using Cons.prems spec by (intro find_or_pass_missing_only) auto
  have rest: "\<And>q. extract_fields specs el q = Inr (foldl (\<lambda>p spec. read_field el spec p) q specs)"
    using Cons.prems by (intro Cons.IH) auto
  show ?case
    by (simp add: spec here rest read_field_def split: sum.splits)
qed

lemma getattr_read_field:
  "field \<in> fst ` set extraction_map \<Longrightarrow>
   getattr (read_field el (field, cls, ''text'') p) g =
     (if field = g
      then (case find_element (below el) CLASS_NAME cls of
              Inr n \<Rightarrow> Some (node_text n) | Inl _ \<Rightarrow> getattr p g)
      else getattr p g)"
  by (auto simp: read_field_def extraction_map_def getattr_def setattr_def split: sum.splits)

lemma fields_after_map:
  "\<forall>(field, cls, mode) \<in> set extraction_map.
      getattr (foldl (\<lambda>p spec. read_field el spec p) (new_ProductInfo term) extraction_map) field
       = (case find_element (below el) CLASS_NAME cls of
              Inr n \<Rightarrow> Some (node_text n) | Inl _ \<Rightarrow> Some ''N/A'')"
  apply (simp add: extraction_map_def)
  apply (intro conjI)
  apply (simp_all add: getattr_read_field extraction_map_def split: sum.splits)
  apply (simp_all add: getattr_def new_ProductInfo_def)
  done

lemma getattr_other_updates [simp]:
  "getattr (p\<lparr>product_link := a\<rparr>) f = getattr p f"
  "getattr (p\<lparr>image_link := a\<rparr>) f = getattr p f"
  "getattr (p\<lparr>review_count := c\<rparr>) f = getattr p f"
  "getattr (p\<lparr>category_path := c\<rparr>) f = getattr p f"
  by (simp_all add: getattr_def)

lemma read_field_keeps:
  "search_term (read_field el spec p) = search_term p"
  "category_path (read_field el spec p) = category_path p"
  "product_link (read_field el spec p) = product_link p"
  "image_link (read_field el spec p) = image_link p"
  "review_count (read_field el spec p) = review_count p"
  "size_options (read_field el spec p) = size_options p"
  by (simp_all add: read_field_def setattr_def split: sum.splits)

lemma read_fields_keep:
  "search_term (foldl (\<lambda>p spec. read_field el spec p) p specs) = search_term p
   \<and> category_path (foldl (\<lambda>p spec. read_field el spec p) p specs) = category_path p
   \<and> product_link (foldl (\<lambda>p spec. read_field el spec p) p specs) = product_link p
   \<and> image_link (foldl (\<lambda>p spec. read_field el spec p) p specs) = image_link p
   \<and> review_count (foldl (\<lambda>p spec. read_field el spec p) p specs) = review_count p
   \<and> size_options (foldl (\<lambda>p spec. read_field el spec p) p specs) = size_options p"
  by (induction specs arbitrary: p) (simp_all add: read_field_keeps)

subsection \<open>Elements of a page\<close>

lemma scrape_elements_all:
  assumes "\<forall>element\<in>set elements. \<forall>e. extract_product_details_fast driver element term = Inl e \<longrightarrow> is_Exception e"
  shows "scrape_elements driver term elements products =
     Inr (products @ List.map_filter (\<lambda>element. case extract_product_details_fast driver element term of
                                        Inr p \<Rightarrow> Some p | Inl _ \<Rightarrow> None) elements)"
  using assms
  by (induction elements arbitrary: products) (auto simp: map_filter_simps split: sum.splits)

subsection \<open>Appending to the CSV file\<close>

lemma scrape_products_from_page_state:
  "scrape_products_from_page w term url st =
     (products_of_page w term url, st\<lparr>history := history st @ [Some url]\<rparr>)"
  by (simp add: products_of_page_def scrape_products_from_page_def driver_get_def split: sum.splits)

lemma rows_after_append:
  "rows_after (rows_after old r1) r2 = rows_after old (r1 @ r2)"
  by (simp add: rows_after_def)

lemma save_to_csv_rows_after:
  "products \<noteq> [] \<Longrightarrow>
   save_to_csv products filename True disk =
     disk(filename @ ''.csv'' := rows_after (disk (filename @ ''.csv'')) (map csv_row_fast products))"
  by (auto simp: save_to_csv_def rows_after_def Let_def fun_eq_iff)

lemma rows_after_Nil [simp]: "rows_after old [] = old"
  by (simp add: rows_after_def)

subsection \<open>The page loop\<close>

lemma page_loop_trace:
  assumes "page_loop w kw base_url max_pages output_file current_page all_products st = Some y"
  shows "quit_calls (snd (snd y)) = quit_calls st
       \<and> driver_started (snd (snd y)) = driver_started st
       \<and> chrome_starts (snd (snd y)) = chrome_starts st
       \<and> json_files (snd (snd y)) = json_files st
       \<and> (\<exists>n. history (snd (snd y))
                  = history st @ map (\<lambda>p. Some (page_url base_url p)) [current_page..<current_page + n]
            \<and> fst (snd y)
                  = all_products @ concat (map (\<lambda>p. page_records w kw (page_url base_url p))
                                             [current_page..<current_page + n])
            \<and> csv_files (snd (snd y)) = (csv_files st)(output_file @ ''.csv'' :=
                 rows_after (csv_files st (output_file @ ''.csv''))
                   (map csv_row_fast
                      (concat (map (\<lambda>p. page_records w kw (page_url base_url p))
                                   [current_page..<current_page + n])))))"
proof (rule page_loop.raw_induct
         [where P = "\<lambda>w kw base_url max_pages output_file current_page all_products st y.
            quit_calls (snd (snd y)) = quit_calls st
          \<and> driver_started (snd (snd y)) = driver_started st
          \<and> chrome_starts (snd (snd y)) = chrome_starts st
          \<and> json_files (snd (snd y)) = json_files st
          \<and> (\<exists>n. history (snd (snd y))
                  = history st @ map (\<lambda>p. Some (page_url base_url p)) [current_page..<current_page + n]
            \<and> fst (snd y)
                  = all_products @ concat (map (\<lambda>p. page_records w kw (page_url base_url p))
                                             [current_page..<current_page + n])
            \<and> csv_files (snd (snd y)) = (csv_files st)(output_file @ ''.csv'' :=
                 rows_after (csv_files st (output_file @ ''.csv''))
                   (map csv_row_fast
                      (concat (map (\<lambda>p. page_records w kw (page_url base_url p))
                                   [current_page..<current_page + n])))))",
          OF _ assms], goal_cases)
  case (1 page_loop w kw base_url max_pages output_file current_page all_products st y)
  let ?url = "page_url base_url current_page"
  let ?path = "output_file @ ''.csv''"
  let ?recs = "\<lambda>p. page_records w kw (page_url base_url p)"
  let ?st' = "st\<lparr>history := history st @ [Some ?url]\<rparr>"
  have eq: "scrape_products_from_page w kw ?url st = (products_of_page w kw ?url, ?st')"
    by (rule scrape_products_from_page_state)
  have one: "[current_page..<current_page + 1] = [current_page]"
    by (simp add: upt_rec)
  have stop: "y = (r, all_products, ?st') \<Longrightarrow> page_records w kw ?url = [] \<Longrightarrow> ?case" for r
    by (intro conjI exI [of _ 1]) (simp_all only: one, simp_all)
  show ?case
  proof (cases "0 < max_pages \<longrightarrow> int current_page \<le> max_pages")
    case False
    with 1(2) have "y = (None, all_products, st)" by simp
    then show ?thesis by (intro conjI exI [of _ 0]) simp_all
  next
    case True
    have body: "(case (products_of_page w kw ?url, ?st') of
           (Inl e, st') \<Rightarrow> Some (Some e, all_products, st')
         | (Inr page_products, st') \<Rightarrow>
             if page_products = [] then Some (None, all_products, st')
             else page_loop w kw base_url max_pages output_file (Suc current_page)
                    (all_products @ page_products)
                    (st'\<lparr>csv_files := save_to_csv page_products output_file True (csv_files st')\<rparr>))
         = Some y"
      using 1(2) unfolding eq if_P [OF True] .
    show ?thesis
    proof (cases "products_of_page w kw ?url")
      case (Inl e)
      with body have "y = (Some e, all_products, ?st')" by simp
      moreover have "page_records w kw ?url = []" using Inl by (simp add: page_records_def)
      ultimately show ?thesis by (rule stop)
    next
      case (Inr page_products)
      then have recs: "page_records w kw ?url = page_products" by (simp add: page_records_def)
      show ?thesis
      proof (cases "page_products = []")
        case True
        with Inr body have "y = (None, all_products, ?st')" by simp
        moreover have "page_records w kw ?url = []" using recs True by simp
        ultimately show ?thesis by (rule stop)
      next
        case False
        let ?st2 = "?st'\<lparr>csv_files := save_to_csv page_products output_file True (csv_files ?st')\<rparr>"
        have rec: "page_loop w kw base_url max_pages output_file (Suc current_page)
                     (all_products @ page_products) ?st2 = Some y"
          using Inr False body by simp
        from 1(1) [OF rec] obtain n where
          q: "quit_calls (snd (snd y)) = quit_calls ?st2"
             "driver_started (snd (snd y)) = driver_started ?st2"
             "chrome_starts (snd (snd y)) = chrome_starts ?st2"
             "json_files (snd (snd y)) = json_files ?st2" and
          h: "history (snd (snd y)) = history ?st2
                @ map (\<lambda>p. Some (page_url base_url p)) [Suc current_page..<Suc current_page + n]" and
          a: "fst (snd y) = (all_products @ page_products)
                @ concat (map ?recs [Suc current_page..<Suc current_page + n])" and
          c: "csv_files (snd (snd y)) = (csv_files ?st2)(?path :=
                rows_after (csv_files ?st2 ?path)
                  (map csv_row_fast (concat (map ?recs [Suc current_page..<Suc current_page + n]))))"
          by blast
        have up: "[current_page..<current_page + Suc n]
                  = current_page # [Suc current_page..<Suc current_page + n]"
          by (simp add: upt_rec)
        have saved: "csv_files ?st2 = (csv_files st)(?path :=
                rows_after (csv_files st ?path) (map csv_row_fast page_products))"
          using False by (simp add: save_to_csv_rows_after)
        have c': "csv_files (snd (snd y)) = (csv_files st)(?path :=
                rows_after (csv_files st ?path)
                  (map csv_row_fast (concat (map ?recs [current_page..<current_page + Suc n]))))"
          unfolding c saved up by (simp add: rows_after_append recs)
        have h': "history (snd (snd y)) = history st
                @ map (\<lambda>p. Some (page_url base_url p)) [current_page..<current_page + Suc n]"
          unfolding h up by simp
        have a': "fst (snd y) = all_products
                @ concat (map ?recs [current_page..<current_page + Suc n])"
          unfolding a up by (simp add: recs)
        show ?thesis
          using q h' a' c' by (intro conjI exI [of _ "Suc n"]) simp_all
      qed
    qed
  qed
qed

lemma page_loop_limit:
  "\<not> (0 < max_pages \<longrightarrow> int c \<le> max_pages)
   \<Longrightarrow> page_loop w kw base max_pages out c acc st = Some (None, acc, st)"
  by (subst page_loop.simps) simp

lemma page_loop_raise:
  "(0 < max_pages \<longrightarrow> int c \<le> max_pages) \<Longrightarrow> products_of_page w kw (page_url base c) = Inl e
   \<Longrightarrow> page_loop w kw base max_pages out c acc st
       = Some (Some e, acc, st\<lparr>history := history st @ [Some (page_url base c)]\<rparr>)"
  by (subst page_loop.simps) (simp add: scrape_products_from_page_state)

lemma page_loop_empty:
  "(0 < max_pages \<longrightarrow> int c \<le> max_pages) \<Longrightarrow> products_of_page w kw (page_url base c) = Inr []
   \<Longrightarrow> page_loop w kw base max_pages out c acc st
       = Some (None, acc, st\<lparr>history := history st @ [Some (page_url base c)]\<rparr>)"
  by (subst page_loop.simps) (simp add: scrape_products_from_page_state)

lemma page_loop_next:
  "(0 < max_pages \<longrightarrow> int c \<le> max_pages) \<Longrightarrow> products_of_page w kw (page_url base c) = Inr ps
   \<Longrightarrow> ps \<noteq> []
   \<Longrightarrow> page_loop w kw base max_pages out c acc st
       = page_loop w kw base max_pages out (Suc c) (acc @ ps)
           (st\<lparr>history := history st @ [Some (page_url base c)],
               csv_files := save_to_csv ps out True (csv_files st)\<rparr>)"
  by (subst page_loop.simps) (simp add: scrape_products_from_page_state)

lemma page_loop_until_empty:
  assumes "c \<le> k"
    and "\<forall>p. c \<le> p \<and> p < k \<longrightarrow> (\<exists>ps. products_of_page w kw (page_url base p) = Inr ps \<and> ps \<noteq> [])"
    and "products_of_page w kw (page_url base k) = Inr []"
    and "max_pages \<le> 0 \<or> int k \<le> max_pages"
  shows "\<exists>all st'. page_loop w kw base max_pages out c acc st = Some (None, all, st')
           \<and> history st' = history st @ map (\<lambda>p. Some (page_url base p)) [c..<Suc k]"
  using assms(1,2)
proof (induction "k - c" arbitrary: c acc st)
  case 0
  then have "c = k" by simp
  have guard: "0 < max_pages \<longrightarrow> int k \<le> max_pages" using assms(4) by auto
  show ?case
    unfolding \<open>c = k\<close> page_loop_empty [OF guard assms(3)] by simp
next
  case (Suc n)
  then have lt: "c < k" by simp
  then obtain ps where ps: "products_of_page w kw (page_url base c) = Inr ps" "ps \<noteq> []"
    using Suc.prems(2) by blast
  have guard: "0 < max_pages \<longrightarrow> int c \<le> max_pages" using assms(4) lt by auto
  let ?st1 = "st\<lparr>history := history st @ [Some (page_url base c)],
               csv_files := save_to_csv ps out True (csv_files st)\<rparr>"
  have "\<exists>all st'. page_loop w kw base max_pages out (Suc c) (acc @ ps) ?st1 = Some (None, all, st')
           \<and> history st' = history ?st1 @ map (\<lambda>p. Some (page_url base p)) [Suc c..<Suc k]"
    using Suc.hyps(2) lt Suc.prems(2) by (intro Suc.hyps(1)) auto
  moreover have "[c..<Suc k] = c # [Suc c..<Suc k]"
    using lt by (intro upt_conv_Cons) auto
  ultimately show ?case
    unfolding page_loop_next [OF guard ps] by (simp del: upt_Suc)
qed

lemma page_loop_until_limit:
  assumes "0 < max_pages"
    and "int c \<le> max_pages + 1"
    and "\<forall>p. c \<le> p \<and> int p \<le> max_pages \<longrightarrow> (\<exists>ps. products_of_page w kw (page_url base p) = Inr ps \<and> ps \<noteq> [])"
  shows "\<exists>all st'. page_loop w kw base max_pages out c acc st = Some (None, all, st')
           \<and> history st' = history st @ map (\<lambda>p. Some (page_url base p)) [c..<Suc (nat max_pages)]"
  using assms(2,3)
proof (induction "Suc (nat max_pages) - c" arbitrary: c acc st)
  case 0
  then have "\<not> (0 < max_pages \<longrightarrow> int c \<le> max_pages)" using assms(1) by auto
  from page_loop_limit [OF this] 0 show ?case by simp
next
  case (Suc n)
  have le: "int c \<le> max_pages" using Suc.hyps(2) assms(1) by linarith
  then obtain ps where ps: "products_of_page w kw (page_url base c) = Inr ps" "ps \<noteq> []"
    using Suc.prems(2) by blast
  have guard: "0 < max_pages \<longrightarrow> int c \<le> max_pages" using le by simp
  let ?st1 = "st\<lparr>history := history st @ [Some (page_url base c)],
               csv_files := save_to_csv ps out True (csv_files st)\<rparr>"
  have "\<exists>all st'. page_loop w kw base max_pages out (Suc c) (acc @ ps) ?st1 = Some (None, all, st')
           \<and> history st' = history ?st1 @ map (\<lambda>p. Some (page_url base p)) [Suc c..<Suc (nat max_pages)]"
    using Suc.hyps(2) le Suc.prems(2) by (intro Suc.hyps(1)) auto
  moreover have "[c..<Suc (nat max_pages)] = c # [Suc c..<Suc (nat max_pages)]"
    using le by (intro upt_conv_Cons) auto
  ultimately show ?case
    unfolding page_loop_next [OF guard ps] by (simp del: upt_Suc)
qed

lemma page_loop_bounded_returns:
  assumes "0 < max_pages"
  shows "\<exists>y. page_loop w kw base max_pages out c acc st = Some y"
proof (induction "Suc (nat max_pages) - c" arbitrary: c acc st)
  case 0
  then have "\<not> (0 < max_pages \<longrightarrow> int c \<le> max_pages)" using assms by auto
  from page_loop_limit [OF this] show ?case by simp
next
  case (Suc n)
  have guard: "0 < max_pages \<longrightarrow> int c \<le> max_pages" using Suc.hyps(2) assms by linarith
  show ?case
  proof (cases "products_of_page w kw (page_url base c)")
    case (Inl e)
    from page_loop_raise [OF guard Inl] show ?thesis by simp
  next
    case (Inr ps)
    show ?thesis
    proof (cases "ps = []")
      case True
      with Inr page_loop_empty [OF guard] show ?thesis by simp
    next
      case False
      have "n = Suc (nat max_pages) - Suc c" using Suc.hyps(2) by simp
      from Suc.hyps(1) [OF this] show ?thesis
        unfolding page_loop_next [OF guard Inr False] .
    qed
  qed
qed

lemma term_loop_bounded_returns:
  assumes "0 < max_pages"
  shows "\<exists>y. term_loop w max_pages out search_urls acc st = Some y"
proof (induction search_urls arbitrary: acc st)
  case Nil
  show ?case by simp
next
  case (Cons entry rest)
  obtain kw base_url where entry: "entry = (kw, base_url)" by (cases entry)
  show ?case
  proof (cases "base_url = None \<or> base_url = Some []")
    case True
    with Cons.IH [of acc st] entry show ?thesis by auto
  next
    case False
    obtain raised all1 st1 where z: "page_loop w kw (the base_url) max_pages out 1 acc st = Some (raised, all1, st1)"
      using page_loop_bounded_returns [OF assms, of w kw "the base_url" out 1 acc st] by (metis prod_cases3)
    show ?thesis
    proof (cases raised)
      case None
      with Cons.IH [of all1 st1] entry False z show ?thesis by auto
    next
      case (Some e)
      with entry False z show ?thesis by auto
    qed
  qed
qed

subsection \<open>The session\<close>

lemma search_and_get_url_keeps:
  "search_and_get_url w q st = (r, st') \<Longrightarrow>
     csv_files st' = csv_files st \<and> json_files st' = json_files st
     \<and> quit_calls st' = quit_calls st \<and> driver_started st' = driver_started st
     \<and> chrome_starts st' = chrome_starts st
     \<and> history st' = history st @ [Some ''https://www.myntra.com'']"
  by (auto simp: search_and_get_url_def driver_get_def split: sum.splits)

lemma generate_search_urls_keeps:
  "generate_search_urls w terms search_urls st = (r, st') \<Longrightarrow>
     csv_files st' = csv_files st \<and> json_files st' = json_files st
     \<and> quit_calls st' = quit_calls st \<and> driver_started st' = driver_started st
     \<and> chrome_starts st' = chrome_starts st
     \<and> (\<exists>k. history st' = history st @ replicate k (Some ''https://www.myntra.com''))"
proof (induction terms arbitrary: search_urls st)
  case Nil
  then show ?case by (auto intro: exI [of _ 0])
next
  case (Cons t terms)
  obtain r1 st1 where s: "search_and_get_url w t st = (r1, st1)"
    by (cases "search_and_get_url w t st")
  note k = search_and_get_url_keeps [OF s]
  show ?case
  proof (cases r1)
    case (Inl e)
    with Cons.prems s have "st' = st1" by simp
    with k show ?thesis by (auto intro: exI [of _ 1])
  next
    case (Inr url)
    with Cons.prems s
    have "generate_search_urls w terms (AList.update t url search_urls) st1 = (r, st')"
      by simp
    from Cons.IH [OF this] obtain j where
      "csv_files st' = csv_files st1" "json_files st' = json_files st1"
      "quit_calls st' = quit_calls st1" "driver_started st' = driver_started st1"
      "chrome_starts st' = chrome_starts st1"
      "history st' = history st1 @ replicate j (Some ''https://www.myntra.com'')"
      by blast
    with k show ?thesis
      by (intro conjI exI [of _ "Suc j"]) (simp_all add: replicate_app_Cons_same)
  qed
qed

lemma term_loop_trace:
  "term_loop w max_pages output_file search_urls all_products st = Some y \<Longrightarrow>
     quit_calls (snd (snd y)) = quit_calls st
       \<and> driver_started (snd (snd y)) = driver_started st
       \<and> chrome_starts (snd (snd y)) = chrome_starts st
       \<and> json_files (snd (snd y)) = json_files st
       \<and> (\<exists>visits. history (snd (snd y)) = history st @ map (\<lambda>v. Some (snd v)) visits
            \<and> fst (snd y)
                = all_products @ concat (map (\<lambda>v. page_records w (fst v) (snd v)) visits)
            \<and> csv_files (snd (snd y)) = (csv_files st)(output_file @ ''.csv'' :=
                 rows_after (csv_files st (output_file @ ''.csv''))
                   (map csv_row_fast
                      (concat (map (\<lambda>v. page_records w (fst v) (snd v)) visits)))))"
proof (induction search_urls arbitrary: all_products st)
  case Nil
  then show ?case by (intro conjI exI [of _ "[]"]) auto
next
  case (Cons entry rest)
  obtain kw base_url where entry: "entry = (kw, base_url)" by (cases entry)
  let ?path = "output_file @ ''.csv''"
  show ?case
  proof (cases "base_url = None \<or> base_url = Some []")
    case True
    with Cons.prems entry have "term_loop w max_pages output_file rest all_products st = Some y"
      by auto
    from Cons.IH [OF this] show ?thesis .
  next
    case False
    then obtain z where z: "page_loop w kw (the base_url) max_pages output_file 1 all_products st = Some z"
      using Cons.prems entry by (auto split: option.splits)
    from page_loop_trace [OF z] obtain n where
      q1: "quit_calls (snd (snd z)) = quit_calls st"
          "driver_started (snd (snd z)) = driver_started st"
          "chrome_starts (snd (snd z)) = chrome_starts st"
          "json_files (snd (snd z)) = json_files st" and
      h1: "history (snd (snd z)) = history st
             @ map (\<lambda>p. Some (page_url (the base_url) p)) [1..<1 + n]" and
      a1: "fst (snd z) = all_products
             @ concat (map (\<lambda>p. page_records w kw (page_url (the base_url) p)) [1..<1 + n])" and
      c1: "csv_files (snd (snd z)) = (csv_files st)(?path :=
                 rows_after (csv_files st ?path)
                   (map csv_row_fast
                     (concat (map (\<lambda>p. page_records w kw (page_url (the base_url) p)) [1..<1 + n]))))"
      by blast
    define v1 where "v1 = map (\<lambda>p. (kw, page_url (the base_url) p)) [1..<1 + n]"
    have hv: "map (\<lambda>p. Some (page_url (the base_url) p)) [1..<1 + n] = map (\<lambda>v. Some (snd v)) v1"
      and rv: "concat (map (\<lambda>p. page_records w kw (page_url (the base_url) p)) [1..<1 + n])
               = concat (map (\<lambda>v. page_records w (fst v) (snd v)) v1)"
      by (simp_all add: v1_def comp_def)
    obtain raised all1 st1 where zz: "z = (raised, all1, st1)" by (cases z)
    show ?thesis
    proof (cases raised)
      case (Some e)
      with Cons.prems entry False z zz have "y = z" by auto
      then show ?thesis
        using q1 h1 a1 c1 unfolding hv rv
        by (intro conjI exI [of _ v1]) (simp_all only:)
    next
      case None
      with Cons.prems entry False z zz
      have "term_loop w max_pages output_file rest all1 st1 = Some y" by auto
      from Cons.IH [OF this] obtain v2 where
        q: "quit_calls (snd (snd y)) = quit_calls st1"
           "driver_started (snd (snd y)) = driver_started st1"
           "chrome_starts (snd (snd y)) = chrome_starts st1"
           "json_files (snd (snd y)) = json_files st1" and
        h2: "history (snd (snd y)) = history st1 @ map (\<lambda>v. Some (snd v)) v2" and
        a2: "fst (snd y) = all1 @ concat (map (\<lambda>v. page_records w (fst v) (snd v)) v2)" and
        c2: "csv_files (snd (snd y)) = (csv_files st1)(?path :=
                 rows_after (csv_files st1 ?path)
                   (map csv_row_fast (concat (map (\<lambda>v. page_records w (fst v) (snd v)) v2))))"
        by blast
      have c: "csv_files (snd (snd y)) = (csv_files st)(?path :=
                 rows_after (csv_files st ?path)
                   (map csv_row_fast
                      (concat (map (\<lambda>v. page_records w (fst v) (snd v)) (v1 @ v2)))))"
        using c1 zz unfolding c2 rv by (simp add: rows_after_append)
      have h: "history (snd (snd y)) = history st @ map (\<lambda>v. Some (snd v)) (v1 @ v2)"
        using h1 zz unfolding h2 hv by simp
      have a: "fst (snd y) = all_products
                 @ concat (map (\<lambda>v. page_records w (fst v) (snd v)) (v1 @ v2))"
        using a1 zz unfolding a2 rv by simp
      show ?thesis using q q1 zz h a c
        by (intro conjI exI [of _ "v1 @ v2"]) simp_all
    qed
  qed
qed

lemma close_browser_files [simp]:
  "csv_files (close_browser st) = csv_files st" "json_files (close_browser st) = json_files st"
  "driver_started (close_browser st) = driver_started st"
  "chrome_starts (close_browser st) = chrome_starts st"
  "history (close_browser st) = history st"
  by (simp_all add: close_browser_def)


lemma run_fast_quits:
  assumes "run_scraping_session_fast w urls_file search_terms max_pages output_file st
             = Some (raised, all_products, st')"
    and "driver_started st"
  shows "quit_calls st' = (case fst (generate_search_urls w search_terms [] st) of
                             Inl _ \<Rightarrow> quit_calls st
                           | Inr _ \<Rightarrow> (case urls_file of
                                        Some _ \<Rightarrow> quit_calls st
                                      | None \<Rightarrow> Suc (quit_calls st)))
         \<and> driver_started st' \<and> chrome_starts st' = chrome_starts st"
proof -
  obtain r1 st1 where g: "generate_search_urls w search_terms [] st = (r1, st1)"
    by (cases "generate_search_urls w search_terms [] st")
  from generate_search_urls_keeps [OF g] have
    k: "quit_calls st1 = quit_calls st" "driver_started st1 = driver_started st"
       "chrome_starts st1 = chrome_starts st"
    by simp_all
  show ?thesis
  proof (cases r1)
    case (Inl e)
    with assms g k show ?thesis by (simp add: run_scraping_session_fast_def)
  next
    case (Inr search_urls)
    show ?thesis
    proof (cases urls_file)
      case (Some e)
      with assms g Inr k show ?thesis by (auto simp: run_scraping_session_fast_def)
    next
      case None
      let ?st2 = "st1\<lparr>json_files := (json_files st1)(''search_urls.json'' \<mapsto> search_urls)\<rparr>"
      from assms g Inr None obtain y where
        t: "term_loop w max_pages output_file search_urls [] ?st2 = Some y" and
        y: "st' = close_browser (snd (snd y))"
        by (auto simp: run_scraping_session_fast_def Let_def split: option.splits)
      from term_loop_trace [OF t] have
        "quit_calls (snd (snd y)) = quit_calls ?st2"
        "driver_started (snd (snd y)) = driver_started ?st2"
        "chrome_starts (snd (snd y)) = chrome_starts ?st2"
        by simp_all
      with k y assms(2) g Inr None show ?thesis
        by (simp add: close_browser_def)
    qed
  qed
qed

lemma main_fast_bounded_returns:
  assumes "0 < max_pages"
  shows "\<exists>st'. main_fast w urls_file search_items max_pages out st = Some st'"
proof -
  have "\<exists>y. run_scraping_session_fast w urls_file search_items max_pages out
               (initialize_browser st) = Some y"
  proof (cases "generate_search_urls w search_items [] (initialize_browser st)")
    case (Pair r st1)
    show ?thesis
    proof (cases r)
      case (Inl e)
      with Pair show ?thesis by (simp add: run_scraping_session_fast_def)
    next
      case (Inr search_urls)
      show ?thesis
      proof (cases urls_file)
        case (Some e)
        with Pair Inr show ?thesis by (simp add: run_scraping_session_fast_def)
      next
        case None
        obtain y where "term_loop w max_pages out search_urls []
            (st1\<lparr>json_files := (json_files st1)(''search_urls.json'' \<mapsto> search_urls)\<rparr>) = Some y"
          using term_loop_bounded_returns [OF assms] by blast
        with Pair Inr None show ?thesis
          by (cases y) (simp add: run_scraping_session_fast_def Let_def)
      qed
    qed
  qed
  then show ?thesis by (auto simp: main_fast_def)
qed

lemma main_fast_quits:
  assumes "main_fast w urls_file search_items max_pages out (new_fast_scraper csvs jsons) = Some st'"
  shows "chrome_starts st' = 1 \<and> driver_started st'
       \<and> quit_calls st' =
           (case fst (generate_search_urls w search_items []
                        (initialize_browser (new_fast_scraper csvs jsons))) of
              Inl _ \<Rightarrow> 1
            | Inr _ \<Rightarrow> (case urls_file of Some _ \<Rightarrow> 1 | None \<Rightarrow> 2))"
proof -
  let ?st0 = "initialize_browser (new_fast_scraper csvs jsons)"
  have started: "driver_started ?st0" and zero: "quit_calls ?st0 = 0"
    and once: "chrome_starts ?st0 = 1"
    by (simp_all add: initialize_browser_def new_fast_scraper_def)
  from assms obtain raised all_products st1 where
    run: "run_scraping_session_fast w urls_file search_items max_pages out ?st0
            = Some (raised, all_products, st1)"
    and st': "st' = close_browser st1"
    by (auto simp: main_fast_def split: option.splits)
  from run_fast_quits [OF run started] zero once st' show ?thesis
    by (auto simp: close_browser_def split: sum.splits option.splits)
qed

subsection \<open>The example shop\<close>

lemma str_nat_1: "str_nat 1 = ''1''" "str_nat 2 = ''2''" "str_nat (Suc 0) = ''1''"
  by code_simp+

lemma page_urls: "page_url ''https://www.myntra.com/shirt?q=1'' 1 = ''https://www.myntra.com/shirt?q=1&p=1''"
  "page_url ''https://www.myntra.com/shirt?q=1'' 2 = ''https://www.myntra.com/shirt?q=1&p=2''"
  by (simp_all add: page_url_def str_nat_1)

lemma card_A_details:
  "extract_product_details_fast listing_page card_A ''shirt''
     = Inr ((new_ProductInfo ''shirt'')\<lparr>brand_name := Some ''Roadster''\<rparr>)"
  by (simp add: extract_product_details_fast_def extraction_map_def find_or_pass_def
        find_element_def card_A_def listing_page_def leaf_def setattr_def Let_def)

lemma card_stale_details:
  "extract_product_details_fast listing_page card_stale ''shirt'' = Inl WebDriverException"
  by (simp add: extract_product_details_fast_def extraction_map_def find_or_pass_def
        find_element_def card_stale_def)

lemma listing_products:
  "products_of_page small_shop ''shirt'' ''https://www.myntra.com/shirt?q=1&p=1''
     = Inr [(new_ProductInfo ''shirt'')\<lparr>brand_name := Some ''Roadster''\<rparr>]"
  by (simp add: products_of_page_def scrape_products_from_page_def driver_get_def small_shop_def
        wait_presence_of_all_def listing_page_def [abs_def] card_A_details [unfolded listing_page_def [abs_def]]
        card_stale_details [unfolded listing_page_def [abs_def]] is_Exception_def)

lemma page2_products:
  "products_of_page small_shop ''shirt'' ''https://www.myntra.com/shirt?q=1&p=2'' = Inr []"
  by (simp add: products_of_page_def scrape_products_from_page_def driver_get_def small_shop_def
        wait_presence_of_all_def empty_page_def only_timeout_def)

section \<open>The claims about extraction and failures\<close>

text \<open>
  Claim C6, as stated, fails: on a product card whose link node has no \<open>href\<close> attribute
  and whose image node has no \<open>src\<close> attribute, the record's link and image fields are
  \<^verbatim>\<open>None\<close>, neither a value read nor the sentinel.
\<close>

theorem C6_link_without_href_is_None:
  "(case extract_product_details_fast empty_page card_no_href ''shirt'' of
      Inr p \<Rightarrow> product_link p = None \<and> image_link p = None
              \<and> product_link p \<noteq> Some ''N/A'' \<and> image_link p \<noteq> Some ''N/A''
    | Inl _ \<Rightarrow> False)"
  by (simp add: extract_product_details_fast_def extraction_map_def find_or_pass_def
        find_element_def card_no_href_def empty_page_def leaf_def get_attribute_def Let_def)

text \<open>
  Claim C6, amended. On a listing element whose lookups, and those of the page, fail only
  because a node is missing, \<^verbatim>\<open>extract_product_details\<close> of the shallow scraper returns a
  record and raises nothing. Each of the seven fields of the extraction map holds the text
  of its node or the sentinel \<open>N/A\<close>; the review count holds the text of its node without
  the surrounding parentheses, and the category the text of its node, or the sentinel; the
  sizes hold the sentinel. The link and the image hold the sentinel when their node is
  missing, and otherwise the \<open>href\<close> and \<open>src\<close> attribute of the node, which is
  \<^verbatim>\<open>None\<close> when the node has no such attribute. \<^verbatim>\<open>_safe_extract\<close> of the deep scraper
  returns the stripped text of the node, or the sentinel when the lookup fails in any way.
\<close>

theorem C6_extraction_total_with_sentinels:
  assumes el: "\<forall>b sel e. find_element (below el) b sel = Inl e \<longrightarrow> e = NoSuchElementException"
    and drv: "\<forall>b sel e. find_element driver b sel = Inl e \<longrightarrow> e = NoSuchElementException"
  shows "(\<exists>p. extract_product_details_fast driver el kw = Inr p
      \<and> search_term p = kw
      \<and> brand_name p = (case find_element (below el) CLASS_NAME ''product-brand'' of
                          Inr n \<Rightarrow> Some (node_text n) | Inl _ \<Rightarrow> Some ''N/A'')
      \<and> current_price p = (case find_element (below el) CLASS_NAME ''product-discountedPrice'' of
                          Inr n \<Rightarrow> Some (node_text n) | Inl _ \<Rightarrow> Some ''N/A'')
      \<and> product_rating p = (case find_element (below el) CLASS_NAME ''product-ratingsContainer'' of
                          Inr n \<Rightarrow> Some (node_text n) | Inl _ \<Rightarrow> Some ''N/A'')
      \<and> product_title p = (case find_element (below el) CLASS_NAME ''product-product'' of
                          Inr n \<Rightarrow> Some (node_text n) | Inl _ \<Rightarrow> Some ''N/A'')
      \<and> original_price_listing p = (case find_element (below el) CLASS_NAME ''product-strike'' of
                          Inr n \<Rightarrow> Some (node_text n) | Inl _ \<Rightarrow> Some ''N/A'')
      \<and> sale_price p = (case find_element (below el) CLASS_NAME ''product-discountedPrice'' of
                          Inr n \<Rightarrow> Some (node_text n) | Inl _ \<Rightarrow> Some ''N/A'')
      \<and> discount_percent p
          = (case find_element (below el) CLASS_NAME ''product-discountPercentage'' of
               Inr n \<Rightarrow> Some (node_text n) | Inl _ \<Rightarrow> Some ''N/A'')
      \<and> product_link p
          = (case find_element (below el) CSS_SELECTOR ''a[data-refreshpage='true']'' of
               Inr l \<Rightarrow> map_of (attributes l) ''href'' | Inl _ \<Rightarrow> Some ''N/A'')
      \<and> image_link p = (case find_element (below el) CSS_SELECTOR ''img.img-responsive'' of
                          Inr i \<Rightarrow> map_of (attributes i) ''src'' | Inl _ \<Rightarrow> Some ''N/A'')
      \<and> review_count p = (case find_element (below el) CSS_SELECTOR ''.product-ratingsCount'' of
                            Inr r \<Rightarrow> strip_chars (\<lambda>c. c = CHR ''('' \<or> c = CHR '')'') (node_text r)
                          | Inl _ \<Rightarrow> ''N/A'')
      \<and> category_path p
          = (case find_element driver CSS_SELECTOR
                    ''span.breadcrumbs-crumb[style='font-size: 14px; margin: 0px;']'' of
               Inr c \<Rightarrow> node_text c | Inl _ \<Rightarrow> ''N/A'')
      \<and> size_options p = ''N/A'')
    \<and> ((\<exists>n. find_element page b sel = Inr n \<and> safe_extract page b sel = strip (node_text n))
       \<or> (\<exists>e. find_element page b sel = Inl e \<and> safe_extract page b sel = ''N/A''))"
proof -
  let ?p1 = "foldl (\<lambda>p spec. read_field el spec p) (new_ProductInfo kw) extraction_map"
  have ef: "extract_fields extraction_map el (new_ProductInfo kw) = Inr ?p1"
    using el by (intro extract_fields_fold) blast
  have fop: "\<And>b sel. find_or_pass (below el) b sel =
        Inr (case find_element (below el) b sel of Inr n \<Rightarrow> Some n | Inl _ \<Rightarrow> None)"
    using el by (intro find_or_pass_missing_only) blast
  have fopd: "\<And>b sel. find_or_pass driver b sel =
        Inr (case find_element driver b sel of Inr n \<Rightarrow> Some n | Inl _ \<Rightarrow> None)"
    using drv by (intro find_or_pass_missing_only) blast
  have keep: "search_term ?p1 = kw" "category_path ?p1 = ''N/A''"
     "product_link ?p1 = Some ''N/A''" "image_link ?p1 = Some ''N/A''"
     "review_count ?p1 = ''N/A''" "size_options ?p1 = ''N/A''"
    using read_fields_keep [of el "new_ProductInfo kw" extraction_map]
    by (simp_all add: new_ProductInfo_def)
  have fields:
    "brand_name ?p1 = (case find_element (below el) CLASS_NAME ''product-brand'' of
                          Inr n \<Rightarrow> Some (node_text n) | Inl _ \<Rightarrow> Some ''N/A'')"
    "current_price ?p1 = (case find_element (below el) CLASS_NAME ''product-discountedPrice'' of
                          Inr n \<Rightarrow> Some (node_text n) | Inl _ \<Rightarrow> Some ''N/A'')"
    "product_rating ?p1 = (case find_element (below el) CLASS_NAME ''product-ratingsContainer'' of
                          Inr n \<Rightarrow> Some (node_text n) | Inl _ \<Rightarrow> Some ''N/A'')"
    "product_title ?p1 = (case find_element (below el) CLASS_NAME ''product-product'' of
                          Inr n \<Rightarrow> Some (node_text n) | Inl _ \<Rightarrow> Some ''N/A'')"
    "original_price_listing ?p1 = (case find_element (below el) CLASS_NAME ''product-strike'' of
                          Inr n \<Rightarrow> Some (node_text n) | Inl _ \<Rightarrow> Some ''N/A'')"
    "sale_price ?p1 = (case find_element (below el) CLASS_NAME ''product-discountedPrice'' of
                          Inr n \<Rightarrow> Some (node_text n) | Inl _ \<Rightarrow> Some ''N/A'')"
    "discount_percent ?p1
          = (case find_element (below el) CLASS_NAME ''product-discountPercentage'' of
               Inr n \<Rightarrow> Some (node_text n) | Inl _ \<Rightarrow> Some ''N/A'')"
    using fields_after_map [of el kw]
    by (simp_all add: extraction_map_def getattr_def)
  have par: "(\<lambda>c. c \<in> set ''()'') = (\<lambda>c. c = CHR ''('' \<or> c = CHR '')'')"
    by auto
  have shallow: "\<exists>p. extract_product_details_fast driver el kw = Inr p
      \<and> search_term p = kw
      \<and> brand_name p = (case find_element (below el) CLASS_NAME ''product-brand'' of
                          Inr n \<Rightarrow> Some (node_text n) | Inl _ \<Rightarrow> Some ''N/A'')
      \<and> current_price p = (case find_element (below el) CLASS_NAME ''product-discountedPrice'' of
                          Inr n \<Rightarrow> Some (node_text n) | Inl _ \<Rightarrow> Some ''N/A'')
      \<and> product_rating p = (case find_element (below el) CLASS_NAME ''product-ratingsContainer'' of
                          Inr n \<Rightarrow> Some (node_text n) | Inl _ \<Rightarrow> Some ''N/A'')
      \<and> product_title p = (case find_element (below el) CLASS_NAME ''product-product'' of
                          Inr n \<Rightarrow> Some (node_text n) | Inl _ \<Rightarrow> Some ''N/A'')
      \<and> original_price_listing p = (case find_element (below el) CLASS_NAME ''product-strike'' of
                          Inr n \<Rightarrow> Some (node_text n) | Inl _ \<Rightarrow> Some ''N/A'')
      \<and> sale_price p = (case find_element (below el) CLASS_NAME ''product-discountedPrice'' of
                          Inr n \<Rightarrow> Some (node_text n) | Inl _ \<Rightarrow> Some ''N/A'')
      \<and> discount_percent p
          = (case find_element (below el) CLASS_NAME ''product-discountPercentage'' of
               Inr n \<Rightarrow> Some (node_text n) | Inl _ \<Rightarrow> Some ''N/A'')
      \<and> product_link p
          = (case find_element (below el) CSS_SELECTOR ''a[data-refreshpage='true']'' of
               Inr l \<Rightarrow> map_of (attributes l) ''href'' | Inl _ \<Rightarrow> Some ''N/A'')
      \<and> image_link p = (case find_element (below el) CSS_SELECTOR ''img.img-responsive'' of
                          Inr i \<Rightarrow> map_of (attributes i) ''src'' | Inl _ \<Rightarrow> Some ''N/A'')
      \<and> review_count p = (case find_element (below el) CSS_SELECTOR ''.product-ratingsCount'' of
                            Inr r \<Rightarrow> strip_chars (\<lambda>c. c = CHR ''('' \<or> c = CHR '')'') (node_text r)
                          | Inl _ \<Rightarrow> ''N/A'')
      \<and> category_path p
          = (case find_element driver CSS_SELECTOR
                    ''span.breadcrumbs-crumb[style='font-size: 14px; margin: 0px;']'' of
               Inr c \<Rightarrow> node_text c | Inl _ \<Rightarrow> ''N/A'')
      \<and> size_options p = ''N/A''"
    unfolding extract_product_details_fast_def ef fop fopd
    using fields keep
    by (simp add: Let_def get_attribute_def par split: sum.splits)
  have deep: "(\<exists>n. find_element page b sel = Inr n \<and> safe_extract page b sel = strip (node_text n))
       \<or> (\<exists>e. find_element page b sel = Inl e \<and> safe_extract page b sel = ''N/A'')"
    by (cases "find_element page b sel") (simp_all add: safe_extract_def)
  from shallow deep show ?thesis by blast
qed

lemma card_A_lookups:
  "find_element (below card_A) b sel = Inl e \<Longrightarrow> e = NoSuchElementException"
  by (auto simp: card_A_def find_element_def split: if_splits)

lemma empty_page_lookups:
  "find_element empty_page b sel = Inl e \<Longrightarrow> e = NoSuchElementException"
  by (auto simp: empty_page_def find_element_def)

theorem C6_extraction_witness:
  "\<exists>p. extract_product_details_fast empty_page card_A ''shirt'' = Inr p
       \<and> brand_name p = Some ''Roadster''
       \<and> current_price p = Some ''N/A''
       \<and> product_link p = Some ''N/A'' \<and> category_path p = ''N/A''"
proof -
  have el: "\<forall>b sel e. find_element (below card_A) b sel = Inl e \<longrightarrow> e = NoSuchElementException"
    using card_A_lookups by blast
  have drv: "\<forall>b sel e. find_element empty_page b sel = Inl e \<longrightarrow> e = NoSuchElementException"
    using empty_page_lookups by blast
  from C6_extraction_total_with_sentinels [OF el drv, of "''shirt''"]
  obtain p where p: "extract_product_details_fast empty_page card_A ''shirt'' = Inr p"
    and brand: "brand_name p = (case find_element (below card_A) CLASS_NAME ''product-brand'' of
                          Inr n \<Rightarrow> Some (node_text n) | Inl _ \<Rightarrow> Some ''N/A'')"
    and price: "current_price p
                 = (case find_element (below card_A) CLASS_NAME ''product-discountedPrice'' of
                      Inr n \<Rightarrow> Some (node_text n) | Inl _ \<Rightarrow> Some ''N/A'')"
    and link: "product_link p
                 = (case find_element (below card_A) CSS_SELECTOR ''a[data-refreshpage='true']'' of
                      Inr l \<Rightarrow> map_of (attributes l) ''href'' | Inl _ \<Rightarrow> Some ''N/A'')"
    and crumb: "category_path p = (case find_element empty_page CSS_SELECTOR
                                   ''span.breadcrumbs-crumb[style='font-size: 14px; margin: 0px;']'' of
                            Inr c \<Rightarrow> node_text c | Inl _ \<Rightarrow> ''N/A'')"
    by blast
  have "brand_name p = Some ''Roadster''" "current_price p = Some ''N/A''"
    using brand price by (simp_all add: card_A_def find_element_def leaf_def)
  moreover have "product_link p = Some ''N/A''" "category_path p = ''N/A''"
    using link crumb by (simp_all add: card_A_def empty_page_def find_element_def)
  ultimately show ?thesis using p by blast
qed

text \<open>
  Claim C7. When every failure of a navigation is an \<^verbatim>\<open>Exception\<close>, the product loop of the
  deep scraper ends normally and has visited every collected URL in order; a URL whose
  navigation raises (or that is \<^verbatim>\<open>None\<close>) adds no record, and every other URL adds the
  record built from its own page alone. In the shallow scraper the loop over the elements
  of a page likewise returns the records of exactly the elements whose extraction did not
  raise, in order.
\<close>

theorem C7_failure_skips_one_product:
  "((\<forall>u e. get_page w u = Inl e \<longrightarrow> is_Exception e)
      \<longrightarrow> product_loop_myntra w kw urls st =
            (None, st\<lparr>history := history st @ urls,
                     scraped_data := scraped_data st @
                       List.map_filter
                         (\<lambda>url. case url of
                             None \<Rightarrow> None
                           | Some u \<Rightarrow>
                               (case get_page w u of
                                  Inl _ \<Rightarrow> None
                                | Inr page \<Rightarrow>
                                    Some (let info = product_info_myntra page u kw
                                          in if original_price info = []
                                             then info\<lparr>original_price := discounted_price info\<rparr>
                                             else info))) urls\<rparr>))
   \<and> ((\<forall>element\<in>set elements. \<forall>e.
          extract_product_details_fast driver element kw' = Inl e \<longrightarrow> is_Exception e)
      \<longrightarrow> scrape_elements driver kw' elements products =
            Inr (products @ List.map_filter
                   (\<lambda>element. case extract_product_details_fast driver element kw' of
                                 Inr p \<Rightarrow> Some p | Inl _ \<Rightarrow> None) elements))"
  using product_loop_myntra_records [of w kw urls st]
        scrape_elements_all [of elements driver kw' products]
  by blast

theorem C7_failure_skips_witness:
  "fst (product_loop_myntra (deep_shop WebDriverException) ''white shirt'' shirt_urls fresh_myntra) = None
   \<and> history (snd (product_loop_myntra (deep_shop WebDriverException) ''white shirt'' shirt_urls fresh_myntra))
       = shirt_urls
   \<and> map product_url (scraped_data (snd (product_loop_myntra (deep_shop WebDriverException)
                                          ''white shirt'' shirt_urls fresh_myntra)))
       = [''https://www.myntra.com/shirt/1'', ''https://www.myntra.com/shirt/3'']
   \<and> scrape_elements listing_page ''shirt'' [card_A, card_stale, card_A] []
       = Inr [(new_ProductInfo ''shirt'')\<lparr>brand_name := Some ''Roadster''\<rparr>,
              (new_ProductInfo ''shirt'')\<lparr>brand_name := Some ''Roadster''\<rparr>]"
proof -
  have nav: "\<forall>u e. get_page (deep_shop WebDriverException) u = Inl e \<longrightarrow> is_Exception e"
    by (simp add: deep_shop_def is_Exception_def)
  have els: "\<forall>element\<in>set [card_A, card_stale, card_A]. \<forall>e.
          extract_product_details_fast listing_page element ''shirt'' = Inl e \<longrightarrow> is_Exception e"
    by (simp add: card_A_details card_stale_details is_Exception_def)
  note t = C7_failure_skips_one_product [of "deep_shop WebDriverException" "''white shirt''" shirt_urls
              fresh_myntra "[card_A, card_stale, card_A]" listing_page "''shirt''" "[]"]
  have deep: "product_loop_myntra (deep_shop WebDriverException) ''white shirt'' shirt_urls fresh_myntra =
            (None, fresh_myntra\<lparr>history := history fresh_myntra @ shirt_urls,
                     scraped_data := scraped_data fresh_myntra @
                       List.map_filter
                         (\<lambda>url. case url of
                             None \<Rightarrow> None
                           | Some u \<Rightarrow>
                               (case get_page (deep_shop WebDriverException) u of
                                  Inl _ \<Rightarrow> None
                                | Inr page \<Rightarrow>
                                    Some (let info = product_info_myntra page u ''white shirt''
                                          in if original_price info = []
                                             then info\<lparr>original_price := discounted_price info\<rparr>
                                             else info))) shirt_urls\<rparr>)"
    using t nav by blast
  have shallow: "scrape_elements listing_page ''shirt'' [card_A, card_stale, card_A] [] =
            Inr ([] @ List.map_filter
                   (\<lambda>element. case extract_product_details_fast listing_page element ''shirt'' of
                                 Inr p \<Rightarrow> Some p | Inl _ \<Rightarrow> None) [card_A, card_stale, card_A])"
    using t els by blast
  show ?thesis
    unfolding deep shallow
    by (simp add: map_filter_simps card_A_details card_stale_details shirt_urls_def
          deep_shop_def Let_def fresh_myntra_def new_scraper_def product_info_myntra_def)
qed

section \<open>Persistence\<close>


lemma save_to_csv_appends:
  "disk (filename @ ''.csv'') = Some rows \<Longrightarrow>
   foldl (\<lambda>d batch. save_to_csv batch filename True d) disk batches
   = disk(filename @ ''.csv'' \<mapsto> rows @ concat (map (map csv_row_fast) batches))"
proof (induction batches arbitrary: disk rows)
  case Nil
  then show ?case by (simp add: map_upd_triv)
next
  case (Cons b bs)
  let ?k = "filename @ ''.csv''"
  let ?r = "rows @ map csv_row_fast b"
  have step: "save_to_csv b filename True disk = disk(?k \<mapsto> ?r)"
    using Cons.prems by (simp add: save_to_csv_def Let_def)
  have "foldl (\<lambda>d batch. save_to_csv batch filename True d) disk (b # bs)
        = foldl (\<lambda>d batch. save_to_csv batch filename True d) (disk(?k \<mapsto> ?r)) bs"
    by (simp only: foldl_Cons step)
  also have "\<dots> = (disk(?k \<mapsto> ?r))(?k \<mapsto> ?r @ concat (map (map csv_row_fast) bs))"
    by (rule Cons.IH) simp
  also have "\<dots> = disk(?k \<mapsto> rows @ concat (map (map csv_row_fast) (b # bs)))"
    by simp
  finally show ?case .
qed


lemma csv_row_fast_cells:
  "csv_row_fast = (\<lambda>product.
                 [search_term product,
                  (case brand_name product of None \<Rightarrow> [] | Some s \<Rightarrow> s),
                  (case current_price product of None \<Rightarrow> [] | Some s \<Rightarrow> s),
                  (case product_rating product of None \<Rightarrow> [] | Some s \<Rightarrow> s),
                  (case product_title product of None \<Rightarrow> [] | Some s \<Rightarrow> s),
                  (case original_price_listing product of None \<Rightarrow> [] | Some s \<Rightarrow> s),
                  (case sale_price product of None \<Rightarrow> [] | Some s \<Rightarrow> s),
                  (case discount_percent product of None \<Rightarrow> [] | Some s \<Rightarrow> s),
                  category_path product,
                  (case product_link product of None \<Rightarrow> [] | Some s \<Rightarrow> s),
                  (case image_link product of None \<Rightarrow> [] | Some s \<Rightarrow> s),
                  review_count product, size_options product])"
  by (simp add: fun_eq_iff csv_row_fast_def csv_cell_def)

lemma save_to_csv_from_absent:
  assumes "disk (filename @ ''.csv'') = None" and "batches \<noteq> []"
  shows "foldl (\<lambda>d batch. save_to_csv batch filename True d) disk batches
         = disk(filename @ ''.csv'' \<mapsto>
                  fieldnames_fast # concat (map (map csv_row_fast) batches))"
proof (cases batches)
  case Nil
  with assms(2) show ?thesis by simp
next
  case (Cons b bs)
  let ?k = "filename @ ''.csv''"
  let ?r = "fieldnames_fast # map csv_row_fast b"
  have step: "save_to_csv b filename True disk = disk(?k \<mapsto> ?r)"
    using assms(1) by (simp add: save_to_csv_def Let_def)
  have "foldl (\<lambda>d batch. save_to_csv batch filename True d) disk (b # bs)
        = foldl (\<lambda>d batch. save_to_csv batch filename True d) (disk(?k \<mapsto> ?r)) bs"
    by (simp only: foldl_Cons step)
  also have "\<dots> = (disk(?k \<mapsto> ?r))(?k \<mapsto> ?r @ concat (map (map csv_row_fast) bs))"
    by (rule save_to_csv_appends) simp
  also have "\<dots> = disk(?k \<mapsto> fieldnames_fast # concat (map (map csv_row_fast) (b # bs)))"
    by simp
  finally show ?thesis using Cons by simp
qed

text \<open>
  Claim C4. When the CSV file does not exist before the first call, any non-empty sequence
  of \<^verbatim>\<open>save_to_csv\<close> calls in append mode on the same target leaves every other file as
  it was and the target holding the header row of the thirteen field names followed by one
  row per record: the records of all batches, batch after batch in submission order and
  each batch in its own order, each row holding the thirteen values of its record in the
  order of the header, with \<^verbatim>\<open>None\<close> written as the empty string.
\<close>

theorem C4_header_once_then_all_batches:
  assumes "disk (filename @ ''.csv'') = None" and "batches \<noteq> []"
  shows "foldl (\<lambda>d batch. save_to_csv batch filename True d) disk batches
         = disk(filename @ ''.csv'' \<mapsto>
             [''search_term'', ''brand_name'', ''current_price'', ''product_rating'',
               ''product_title'', ''original_price'', ''sale_price'', ''discount_percent'',
               ''category_path'', ''product_link'', ''image_link'', ''review_count'',
               ''size_options'']
             # concat (map (map (\<lambda>product.
                 [search_term product,
                  (case brand_name product of None \<Rightarrow> [] | Some s \<Rightarrow> s),
                  (case current_price product of None \<Rightarrow> [] | Some s \<Rightarrow> s),
                  (case product_rating product of None \<Rightarrow> [] | Some s \<Rightarrow> s),
                  (case product_title product of None \<Rightarrow> [] | Some s \<Rightarrow> s),
                  (case original_price_listing product of None \<Rightarrow> [] | Some s \<Rightarrow> s),
                  (case sale_price product of None \<Rightarrow> [] | Some s \<Rightarrow> s),
                  (case discount_percent product of None \<Rightarrow> [] | Some s \<Rightarrow> s),
                  category_path product,
                  (case product_link product of None \<Rightarrow> [] | Some s \<Rightarrow> s),
                  (case image_link product of None \<Rightarrow> [] | Some s \<Rightarrow> s),
                  review_count product, size_options product])) batches))"
  using save_to_csv_from_absent [of disk filename batches] assms
  unfolding csv_row_fast_cells fieldnames_fast_def by blast

theorem C4_header_once_witness:
  "foldl (\<lambda>d batch. save_to_csv batch ''out'' True d) Map.empty
         [[(new_ProductInfo ''shirt'')\<lparr>brand_name := Some ''Roadster'', product_link := None\<rparr>],
          [(new_ProductInfo ''dress'')\<lparr>sale_price := Some ''Rs. 499''\<rparr>,
           (new_ProductInfo ''jeans'')\<lparr>review_count := ''12''\<rparr>]]
         ''out.csv''
   = Some [[''search_term'', ''brand_name'', ''current_price'', ''product_rating'',
            ''product_title'', ''original_price'', ''sale_price'', ''discount_percent'',
            ''category_path'', ''product_link'', ''image_link'', ''review_count'',
            ''size_options''],
           [''shirt'', ''Roadster'', ''N/A'', ''N/A'', ''N/A'', ''N/A'', ''N/A'', ''N/A'',
            ''N/A'', [], ''N/A'', ''N/A'', ''N/A''],
           [''dress'', ''N/A'', ''N/A'', ''N/A'', ''N/A'', ''N/A'', ''Rs. 499'', ''N/A'',
            ''N/A'', ''N/A'', ''N/A'', ''N/A'', ''N/A''],
           [''jeans'', ''N/A'', ''N/A'', ''N/A'', ''N/A'', ''N/A'', ''N/A'', ''N/A'',
            ''N/A'', ''N/A'', ''N/A'', ''12'', ''N/A'']]"
  using C4_header_once_then_all_batches
          [of Map.empty "''out''"
              "[[(new_ProductInfo ''shirt'')\<lparr>brand_name := Some ''Roadster'', product_link := None\<rparr>],
                [(new_ProductInfo ''dress'')\<lparr>sale_price := Some ''Rs. 499''\<rparr>,
                 (new_ProductInfo ''jeans'')\<lparr>review_count := ''12''\<rparr>]]"]
  by (simp add: new_ProductInfo_def)

lemma small_shop_search:
  "search_and_get_url small_shop ''shirt'' st
     = (Inr (Some ''https://www.myntra.com/shirt?q=1''),
        st\<lparr>history := history st @ [Some ''https://www.myntra.com'']\<rparr>)"
  by (simp add: search_and_get_url_def driver_get_def small_shop_def home_page_def find_element_def)

lemma small_shop_urls:
  "generate_search_urls small_shop [''shirt''] [] st
     = (Inr [(''shirt'', Some ''https://www.myntra.com/shirt?q=1'')],
        st\<lparr>history := history st @ [Some ''https://www.myntra.com'']\<rparr>)"
  by (simp add: small_shop_search)









section \<open>Pagination\<close>

text \<open>
  Claim C5. From page 1 on, the page loop fetches the pages in order. If page \<open>k\<close> is the
  first page without products and the limit is unbounded (\<open>max_pages \<le> 0\<close>, in particular
  0) or at least \<open>k\<close>, the loop returns after fetching exactly the pages \<open>1, \<dots>, k\<close>. If
  the limit is positive and every page up to it has products, the loop returns after
  fetching exactly the pages \<open>1, \<dots>, max_pages\<close>.
\<close>

theorem C5_pagination_stops:
  "(1 \<le> k
      \<and> (\<forall>p. 1 \<le> p \<and> p < k \<longrightarrow>
             (\<exists>ps. products_of_page w kw (page_url base p) = Inr ps \<and> ps \<noteq> []))
      \<and> products_of_page w kw (page_url base k) = Inr []
      \<and> (max_pages \<le> 0 \<or> int k \<le> max_pages)
     \<longrightarrow> (\<exists>all st'. page_loop w kw base max_pages out 1 acc st = Some (None, all, st')
            \<and> history st' = history st @ map (\<lambda>p. Some (page_url base p)) [1..<Suc k]))
   \<and> (0 < max_pages
      \<and> (\<forall>p. 1 \<le> p \<and> int p \<le> max_pages \<longrightarrow>
             (\<exists>ps. products_of_page w kw (page_url base p) = Inr ps \<and> ps \<noteq> []))
     \<longrightarrow> (\<exists>all st'. page_loop w kw base max_pages out 1 acc st = Some (None, all, st')
            \<and> history st' = history st
                 @ map (\<lambda>p. Some (page_url base p)) [1..<Suc (nat max_pages)]))"
  using page_loop_until_empty [of 1 k w kw base max_pages out acc st]
        page_loop_until_limit [of max_pages 1 w kw base out acc st]
  by auto

theorem C5_pagination_witness:
  "(\<exists>all st'. page_loop small_shop ''shirt'' ''https://www.myntra.com/shirt?q=1'' 0 ''out'' 1 []
                  fresh_fast = Some (None, all, st')
       \<and> history st' = [Some ''https://www.myntra.com/shirt?q=1&p=1'',
                          Some ''https://www.myntra.com/shirt?q=1&p=2''])
   \<and> (\<exists>all st'. page_loop small_shop ''shirt'' ''https://www.myntra.com/shirt?q=1'' 1 ''out'' 1 []
                  fresh_fast = Some (None, all, st')
       \<and> history st' = [Some ''https://www.myntra.com/shirt?q=1&p=1''])"
proof -
  let ?base = "''https://www.myntra.com/shirt?q=1''"
  have first: "\<exists>ps. products_of_page small_shop ''shirt'' (page_url ?base 1) = Inr ps \<and> ps \<noteq> []"
    unfolding page_urls listing_products by simp
  have before: "\<forall>p. 1 \<le> p \<and> p < 2 \<longrightarrow>
          (\<exists>ps. products_of_page small_shop ''shirt'' (page_url ?base p) = Inr ps \<and> ps \<noteq> [])"
  proof (intro allI impI)
    fix p :: nat
    assume "1 \<le> p \<and> p < 2"
    then have "p = 1" by arith
    with first show "\<exists>ps. products_of_page small_shop ''shirt'' (page_url ?base p) = Inr ps \<and> ps \<noteq> []"
      by (simp only:)
  qed
  have upto: "\<forall>p. 1 \<le> p \<and> int p \<le> 1 \<longrightarrow>
          (\<exists>ps. products_of_page small_shop ''shirt'' (page_url ?base p) = Inr ps \<and> ps \<noteq> [])"
  proof (intro allI impI)
    fix p :: nat
    assume "1 \<le> p \<and> int p \<le> 1"
    then have "p = 1" by arith
    with first show "\<exists>ps. products_of_page small_shop ''shirt'' (page_url ?base p) = Inr ps \<and> ps \<noteq> []"
      by (simp only:)
  qed
  have second: "products_of_page small_shop ''shirt'' (page_url ?base 2) = Inr []"
    unfolding page_urls by (rule page2_products)
  have h: "history fresh_fast = []"
    by (simp add: fresh_fast_def new_fast_scraper_def)
  have l2: "[1..<Suc 2] = [1, 2]" and l1: "[1..<Suc (nat 1)] = [1]"
    by (simp_all add: upt_rec)
  from C5_pagination_stops [of 2 small_shop "''shirt''" ?base 0 "''out''" "[]" fresh_fast]
       before second
  have a: "\<exists>all st'. page_loop small_shop ''shirt'' ?base 0 ''out'' 1 [] fresh_fast = Some (None, all, st')
       \<and> history st' = history fresh_fast @ map (\<lambda>p. Some (page_url ?base p)) [1..<Suc 2]"
    by simp
  from C5_pagination_stops [of 2 small_shop "''shirt''" ?base 1 "''out''" "[]" fresh_fast]
       upto
  have b: "\<exists>all st'. page_loop small_shop ''shirt'' ?base 1 ''out'' 1 [] fresh_fast = Some (None, all, st')
       \<and> history st' = history fresh_fast @ map (\<lambda>p. Some (page_url ?base p)) [1..<Suc (nat 1)]"
    by simp
  from a b show ?thesis
    unfolding h l2 l1 by (simp add: page_urls page_urls(1) [unfolded One_nat_def])
qed

section \<open>The life of the driver\<close>

lemma small_shop_urls_any:
  "fst (generate_search_urls small_shop [''shirt''] [] st)
     = Inr [(''shirt'', Some ''https://www.myntra.com/shirt?q=1'')]"
  by (simp only: small_shop_urls fst_conv)

lemma interrupted_shop_urls:
  "fst (generate_search_urls interrupted_shop [''shirt''] [] st) = Inl KeyboardInterrupt"
  by (simp add: search_and_get_url_def driver_get_def interrupted_shop_def swallow_Exception_def
        is_Exception_def)

text \<open>
  Claim C9, as stated, fails: in a session of the shallow scraper that completes normally,
  \<^verbatim>\<open>driver.quit\<close> is called twice, once by the \<^verbatim>\<open>finally\<close> of \<^verbatim>\<open>run_scraping_session\<close>
  and once by the \<^verbatim>\<open>finally\<close> of \<^verbatim>\<open>main\<close>.
\<close>

theorem C9_quit_is_called_twice:
  "map_option quit_calls (main_fast small_shop None [''shirt''] 1 ''out'' fresh_fast) = Some 2"
proof -
  obtain st' where m: "main_fast small_shop None [''shirt''] 1 ''out'' fresh_fast = Some st'"
    using main_fast_bounded_returns [of 1 small_shop None "[''shirt'']" "''out''" fresh_fast]
    by auto
  from main_fast_quits [OF m [unfolded fresh_fast_def]]
  have "quit_calls st' = 2" unfolding small_shop_urls_any by simp
  with m show ?thesis by simp
qed

text \<open>
  Claim C9, amended. In a run of \<^verbatim>\<open>main\<close> of the shallow scraper in which the browser
  starts, it is opened once and that one driver serves the whole crawl. On every path on which \<^verbatim>\<open>main\<close> ends,
  the driver's \<^verbatim>\<open>quit\<close> has been called: twice when the scraping loop was entered (normal
  completion, an error or an interrupt in the loop), and once when the session was left
  before it, by an interrupt while the search URLs were generated or by a failure to write
  \<^verbatim>\<open>search_urls.json\<close>. With a positive page limit \<^verbatim>\<open>main\<close> ends.
\<close>

theorem C9_quit_on_every_exit_once_or_twice:
  "(main_fast w urls_file search_items max_pages output_filename (new_fast_scraper csvs jsons)
      = Some st'
      \<longrightarrow> chrome_starts st' = 1 \<and> driver_started st'
          \<and> quit_calls st' =
            (case fst (generate_search_urls w search_items []
                         (initialize_browser (new_fast_scraper csvs jsons))) of
               Inl _ \<Rightarrow> 1
             | Inr _ \<Rightarrow> (case urls_file of Some _ \<Rightarrow> 1 | None \<Rightarrow> 2)))
   \<and> (0 < max_pages
      \<longrightarrow> (\<exists>st'. main_fast w urls_file search_items max_pages output_filename
                     (new_fast_scraper csvs jsons) = Some st'))"
  using main_fast_quits [of w urls_file search_items max_pages output_filename csvs jsons st']
        main_fast_bounded_returns [of max_pages w urls_file search_items output_filename
                                      "new_fast_scraper csvs jsons"]
  by blast

theorem C9_quit_witness:
  "(\<exists>st'. main_fast small_shop None [''shirt''] 2 ''out'' fresh_fast = Some st'
          \<and> chrome_starts st' = 1 \<and> quit_calls st' = 2)
   \<and> (\<exists>st'. main_fast interrupted_shop None [''shirt''] 2 ''out'' fresh_fast = Some st'
            \<and> chrome_starts st' = 1 \<and> quit_calls st' = 1)
   \<and> (\<exists>st'. main_fast small_shop (Some OSError) [''shirt''] 2 ''out'' fresh_fast = Some st'
            \<and> chrome_starts st' = 1 \<and> quit_calls st' = 1)"
proof -
  note a = C9_quit_on_every_exit_once_or_twice
             [of small_shop None "[''shirt'']" 2 "''out''" Map.empty Map.empty]
  note b = C9_quit_on_every_exit_once_or_twice
             [of interrupted_shop None "[''shirt'']" 2 "''out''" Map.empty Map.empty]
  note c = C9_quit_on_every_exit_once_or_twice
             [of small_shop "Some OSError" "[''shirt'']" 2 "''out''" Map.empty Map.empty]
  obtain s1 where s1: "main_fast small_shop None [''shirt''] 2 ''out''
                         (new_fast_scraper Map.empty Map.empty) = Some s1"
    using a [of undefined] by auto
  obtain s2 where s2: "main_fast interrupted_shop None [''shirt''] 2 ''out''
                         (new_fast_scraper Map.empty Map.empty) = Some s2"
    using b [of undefined] by auto
  obtain s3 where s3: "main_fast small_shop (Some OSError) [''shirt''] 2 ''out''
                         (new_fast_scraper Map.empty Map.empty) = Some s3"
    using c [of undefined] by auto
  have "chrome_starts s1 = 1 \<and> quit_calls s1 = 2"
    using a [of s1] s1 unfolding small_shop_urls_any by simp
  moreover have "chrome_starts s2 = 1 \<and> quit_calls s2 = 1"
    using b [of s2] s2 unfolding interrupted_shop_urls by simp
  moreover have "chrome_starts s3 = 1 \<and> quit_calls s3 = 1"
    using c [of s3] s3 unfolding small_shop_urls_any by simp
  ultimately show ?thesis using s1 s2 s3 by (simp add: fresh_fast_def)
qed

end
